theory Spec2Isabelle
  imports Main "HOL-Library.Word"
begin

section \<open>Return codes, OpenSSL identifiers and bytes\<close>

text \<open>
  The functions of \<^verbatim>\<open>libekmfweb/ekmfweb.c\<close> return a C \<^verbatim>\<open>int\<close>: zero for success, a
  negative \<^verbatim>\<open>errno\<close> value for an error, and in the transport layer a positive CURL
  code. The model keeps these as \<^typ>\<open>int\<close>; no arithmetic is done on them besides
  negation and comparison with zero. The \<^verbatim>\<open>errno\<close> numbers are those of Linux, the
  NIDs those of OpenSSL's \<^verbatim>\<open>obj_mac.h\<close>.
\<close>

definition EPERM :: int where "EPERM = 1"
definition ENOENT :: int where "ENOENT = 2"
definition EIO :: int where "EIO = 5"
definition ENOMEM :: int where "ENOMEM = 12"
definition EACCES :: int where "EACCES = 13"
definition EINVAL :: int where "EINVAL = 22"
definition ERANGE :: int where "ERANGE = 34"
definition EBADMSG :: int where "EBADMSG = 74"

lemmas errno_defs =
  EPERM_def ENOENT_def EIO_def ENOMEM_def EACCES_def EINVAL_def ERANGE_def EBADMSG_def

definition NID_rsaEncryption :: int where "NID_rsaEncryption = 6"
definition NID_X9_62_id_ecPublicKey :: int where "NID_X9_62_id_ecPublicKey = 408"
definition NID_X9_62_prime256v1 :: int where "NID_X9_62_prime256v1 = 415"
definition NID_sha256 :: int where "NID_sha256 = 672"
definition NID_sha384 :: int where "NID_sha384 = 673"
definition NID_sha512 :: int where "NID_sha512 = 674"
definition NID_secp384r1 :: int where "NID_secp384r1 = 715"
definition NID_secp521r1 :: int where "NID_secp521r1 = 716"
definition NID_rsassaPss :: int where "NID_rsassaPss = 912"

definition EVP_PKEY_RSA :: int where "EVP_PKEY_RSA = NID_rsaEncryption"
definition EVP_PKEY_EC :: int where "EVP_PKEY_EC = NID_X9_62_id_ecPublicKey"
definition EVP_PKEY_RSA_PSS :: int where "EVP_PKEY_RSA_PSS = NID_rsassaPss"

definition DEFAULT_SESSION_EC_KEY_CURVE :: int where
  "DEFAULT_SESSION_EC_KEY_CURVE = NID_secp521r1"

lemmas nid_defs =
  NID_rsaEncryption_def NID_X9_62_id_ecPublicKey_def NID_X9_62_prime256v1_def
  NID_sha256_def NID_sha384_def NID_sha512_def NID_secp384r1_def NID_secp521r1_def
  NID_rsassaPss_def EVP_PKEY_RSA_def EVP_PKEY_EC_def EVP_PKEY_RSA_PSS_def
  DEFAULT_SESSION_EC_KEY_CURVE_def

type_synonym byte = "8 word"

section \<open>JSON objects as json-c holds them\<close>

text \<open>
  A \<^verbatim>\<open>json_object *\<close> is a value of type \<open>json\<close>. json-c represents the JSON value
  \<^verbatim>\<open>null\<close> by the NULL pointer, so \<open>JNull\<close> stands for both. An object keeps its
  fields in insertion order with unique keys, so it is an association list. Integers
  are the \<^verbatim>\<open>int64_t\<close> json-c stores; the code only compares them, so they are
  \<^typ>\<open>int\<close>. A double is carried as its text, since no function here computes
  with one.
\<close>

datatype json_type =
  json_type_null | json_type_boolean | json_type_double | json_type_int
  | json_type_object | json_type_array | json_type_string

datatype json =
  JNull
  | JBoolean bool
  | JDouble string
  | JInt int
  | JObject "(string \<times> json) list"
  | JArray "json list"
  | JString string

fun json_object_get_type :: "json \<Rightarrow> json_type" where
  "json_object_get_type JNull = json_type_null"
| "json_object_get_type (JBoolean b) = json_type_boolean"
| "json_object_get_type (JDouble d) = json_type_double"
| "json_object_get_type (JInt i) = json_type_int"
| "json_object_get_type (JObject kvs) = json_type_object"
| "json_object_get_type (JArray xs) = json_type_array"
| "json_object_get_type (JString s) = json_type_string"

definition json_object_is_type :: "json \<Rightarrow> json_type \<Rightarrow> bool" where
  "json_object_is_type obj t = (json_object_get_type obj = t)"

text \<open>
  \<^verbatim>\<open>json_object_object_get_ex(obj, key, &value)\<close>: the returned flag says whether the
  key was found; \<^verbatim>\<open>value\<close> is set to NULL when it was not, or when \<^verbatim>\<open>obj\<close> is NULL
  or not an object.
\<close>

fun json_object_object_get_ex :: "json \<Rightarrow> string \<Rightarrow> bool \<times> json" where
  "json_object_object_get_ex (JObject kvs) key =
     (case map_of kvs key of None \<Rightarrow> (False, JNull) | Some v \<Rightarrow> (True, v))"
| "json_object_object_get_ex obj key = (False, JNull)"

fun json_object_object_del :: "json \<Rightarrow> string \<Rightarrow> json" where
  "json_object_object_del (JObject kvs) key = JObject (filter (\<lambda>kv. fst kv \<noteq> key) kvs)"
| "json_object_object_del obj key = obj"

text \<open>
  \<^verbatim>\<open>json_object_object_add_ex(obj, key, val, 0)\<close> replaces the value of a key that is
  already there, in place, and appends a new key at the end.
\<close>

fun json_object_object_add :: "json \<Rightarrow> string \<Rightarrow> json \<Rightarrow> json" where
  "json_object_object_add (JObject kvs) key val =
     (if key \<in> fst ` set kvs
      then JObject (map (\<lambda>kv. if fst kv = key then (key, val) else kv) kvs)
      else JObject (kvs @ [(key, val)]))"
| "json_object_object_add obj key val = obj"

definition json_object_new_object :: json where
  "json_object_new_object = JObject []"

fun json_object_get_int64 :: "json \<Rightarrow> int" where
  "json_object_get_int64 (JInt i) = i"
| "json_object_get_int64 (JBoolean b) = (if b then 1 else 0)"
| "json_object_get_int64 obj = 0"

text \<open>\<^verbatim>\<open>json_object_get_int\<close> saturates the stored value to the range of a 32-bit int.\<close>

definition json_object_get_int :: "json \<Rightarrow> int" where
  "json_object_get_int obj =
     (let v = json_object_get_int64 obj
      in if v < - 2147483648 then - 2147483648
         else if 2147483647 < v then 2147483647 else v)"

text \<open>
  \<^verbatim>\<open>json_object_get_string\<close> is only applied to objects the code has checked to be
  strings, or to the timestamp object; NULL gives NULL.
\<close>

fun json_object_get_string :: "json \<Rightarrow> string option" where
  "json_object_get_string (JString s) = Some s"
| "json_object_get_string obj = None"

definition json_object_new_string :: "string \<Rightarrow> json" where
  "json_object_new_string s = JString s"

section \<open>Calls into the backend and the transport, as a trace\<close>

text \<open>
  The cryptographic backend (\<^verbatim>\<open>cca.c\<close>), the JOSE helpers (\<^verbatim>\<open>utilities.c\<close>), OpenSSL,
  json-c's printer and libcurl are not part of the file verified here. Their results
  are parameters of the model, collected in records of functions, and the calls that
  matter for the protocol are logged as events, in the order the code makes them:
  setting up the signing context (key type, digest), creating a signature (algorithm,
  payload), the HTTP transfer (method, URL, body, bearer token), verifying a signature
  (signature, payload, key), importing a JSON web key, deriving the transport key
  (requester key, responder key, party info), unwrapping (wrapped key, transport key),
  and the file writes of the certificate chain.
\<close>

datatype evp_pkey =
  EVP_PKEY (EVP_PKEY_id: int) (EC_GROUP_curve_name: int) (pkey_material: "byte list")

datatype event =
  EvSetupSignContext int int
  | EvCreateJws string string
  | EvHttpRequest string string "string option" "string option"
  | EvVerifyJws "string option" string "evp_pkey option"
  | EvImportJwk json
  | EvDeriveImporter "byte list" "byte list" "byte list"
  | EvImportExternalKey "byte list" "byte list"
  | EvFopenWrite string
  | EvWriteCert string string
  | EvWritePubkey string evp_pkey

text \<open>The events of signing a request, and those of handling a response.\<close>

definition signing_event :: "event \<Rightarrow> bool" where
  "signing_event x =
     (case x of EvSetupSignContext a b \<Rightarrow> True | EvCreateJws a p \<Rightarrow> True | _ \<Rightarrow> False)"

definition response_event :: "event \<Rightarrow> bool" where
  "response_event x =
     (case x of EvVerifyJws s p k \<Rightarrow> True | EvImportJwk j \<Rightarrow> True
      | EvDeriveImporter a b c \<Rightarrow> True | EvImportExternalKey a b \<Rightarrow> True | _ \<Rightarrow> False)"

datatype ekmf_ext_lib_type = EKMF_EXT_LIB_CCA | EKMF_EXT_LIB_OTHER int

section \<open>The environment\<close>

text \<open>
  One record holds what the model takes from outside the file. A function-valued
  field is a function of the arguments the C call is given. Where a call has an
  output buffer, the field returns the code and the bytes written.

  \<^item> libc and the file system: \<open>stat_size\<close> (\<open>Inl errno\<close>, or the size), \<open>fopen_read\<close>
    (\<open>Inl errno\<close>, or the bytes \<^verbatim>\<open>fread\<close> then delivers), \<open>malloc_ok\<close>, \<open>asprintf_ok\<close>
    (of the text to be allocated), \<open>time_now\<close>.
  \<^item> \<^verbatim>\<open>utilities.c\<close>: \<open>parse_json_web_token\<close> (code and payload), \<open>read_public_key\<close>,
    \<open>read_key_blob\<close>, \<open>get_json_timestamp\<close> (the text of the timestamp string object,
    \<open>None\<close> for NULL), \<open>json_object_new_base64url\<close>, \<open>json_object_get_base64url\<close>,
    \<open>create_json_web_signature\<close> (algorithm, key id, payload), \<open>verify_json_web_signature\<close>
    (signature, payload, public key).
  \<^item> json-c: \<open>json_object_to_json_string_ext\<close> is the printer with the flags
    \<^verbatim>\<open>JSON_C_TO_STRING_PLAIN | JSON_C_TO_STRING_NOSLASHESCAPE\<close>, the only flags the file
    uses (\<open>None\<close> is NULL); \<open>json_object_new_object_ok\<close> says whether the n-th
    \<^verbatim>\<open>json_object_new_object\<close> of a request succeeds; \<open>json_object_object_add_rc\<close> is
    the code of \<^verbatim>\<open>json_object_object_add_ex\<close> for the key added.
  \<^item> OpenSSL: \<open>EVP_get_digestbynid\<close> (the digest size, \<open>None\<close> for NULL), the digest
    context calls and \<open>EVP_Digest\<close>, the digest of the bytes fed to the context.
  \<^item> \<^verbatim>\<open>cca.c\<close>: the backend calls, under their names. \<open>cca_get_*_pub_key_as_pkey\<close>
    return the code and the key object they allocate (\<open>None\<close> is NULL).
  \<^item> \<open>ekmf_setup_sign_context\<close> is the result of \<^verbatim>\<open>_ekmf_setup_sign_context\<close>, which
    binds the key blob to an OpenSSL signing context.
  \<^item> libcurl: \<open>curl_easy_init\<close>, \<open>curl_easy_escape\<close>, \<open>curl_easy_strerror\<close>;
    \<open>http_setup\<close> is the code and error text of the first failing step between
    \<^verbatim>\<open>curl_easy_reset\<close> and \<^verbatim>\<open>curl_easy_perform\<close> in \<^verbatim>\<open>_ekmf_perform_request\<close> (a
    \<^verbatim>\<open>curl_easy_setopt\<close>, \<^verbatim>\<open>stat\<close>, \<^verbatim>\<open>curl_slist_append\<close> or \<^verbatim>\<open>json_tokener_new\<close>), zero
    when none fails; \<open>curl_easy_perform\<close> gives what the transfer and its callbacks
    leave behind.
  \<^item> For the certificate chain: \<open>BIO_new_mem_buf_ok\<close>, \<open>PEM_read_bio_X509_ok\<close> and
    \<open>X509_get0_pubkey\<close> of the certificate text, \<open>PEM_write_PUBKEY_ok\<close> of the file
    and key; \<open>fopen_write\<close> (\<open>Some errno\<close> when \<^verbatim>\<open>fopen(name, "w")\<close> fails) and
    \<open>fwrite_cert\<close> of the file and the text (\<open>Some errno\<close> when \<^verbatim>\<open>fwrite\<close> does not
    return 1). In \<^verbatim>\<open>ekmf_get_server_cert_chain\<close>, \<open>certchain_setup\<close> is the code of the
    first failing step before the label \<^verbatim>\<open>retry\<close> (zero when none fails),
    \<open>certchain_retry_setup\<close> that of the steps from \<^verbatim>\<open>retry\<close> to \<^verbatim>\<open>curl_easy_perform\<close>
    and \<open>certchain_perform\<close> that of \<^verbatim>\<open>curl_easy_perform\<close>, both for the value of
    \<^verbatim>\<open>do_verify\<close>; \<open>certchain_getinfo\<close> is the code of \<^verbatim>\<open>curl_easy_getinfo\<close> and the
    certificate list, each certificate a list of attribute lines.
  \<^item> \<open>MAX_KEY_BLOB_SIZE\<close> and \<open>MAX_SYM_KEY_BLOB_SIZE\<close> are the buffer sizes of
    \<^verbatim>\<open>cca.h\<close>.
  \<^item> \<open>stack_status_code\<close>, \<open>stack_req_sess_ec_key\<close> and \<open>stack_transport_key\<close> are
    the indeterminate contents of three uninitialised locals.
\<close>

datatype curl_result =
  CurlResult (cr_rc: int) (cr_header_error: bool) (cr_write_error: bool) (cr_obj: json)
    (cr_error_str: string) (cr_getinfo_rc: int) (cr_status_code: int)

record env =
  stat_size :: "string \<Rightarrow> int + nat"
  fopen_read :: "string \<Rightarrow> int + string"
  malloc_ok :: "nat \<Rightarrow> bool"
  asprintf_ok :: "string \<Rightarrow> bool"
  time_now :: int
  parse_json_web_token :: "string \<Rightarrow> int \<times> json"
  read_public_key :: "string \<Rightarrow> int \<times> evp_pkey option"
  read_key_blob :: "string \<Rightarrow> int \<times> byte list"
  get_json_timestamp :: "string option"
  json_object_new_base64url :: "byte list \<Rightarrow> json"
  json_object_get_base64url :: "json \<Rightarrow> string \<Rightarrow> bool \<Rightarrow> int \<times> byte list"
  create_json_web_signature :: "string \<Rightarrow> string option \<Rightarrow> string \<Rightarrow> int \<times> string"
  verify_json_web_signature :: "string option \<Rightarrow> string \<Rightarrow> evp_pkey option \<Rightarrow> int"
  json_object_to_json_string_ext :: "json \<Rightarrow> string option"
  json_object_new_object_ok :: "nat \<Rightarrow> bool"
  json_object_object_add_rc :: "string \<Rightarrow> int"
  EVP_get_digestbynid :: "int \<Rightarrow> nat option"
  EVP_MD_CTX_create_ok :: bool
  EVP_DigestInit_ex :: "int \<Rightarrow> int"
  EVP_DigestUpdate :: "string \<Rightarrow> int"
  EVP_DigestFinal_ex :: "int \<Rightarrow> string \<Rightarrow> int"
  EVP_Digest :: "int \<Rightarrow> string \<Rightarrow> byte list"
  cca_get_key_type :: "byte list \<Rightarrow> int \<times> int"
  cca_get_ecc_pub_key_as_pkey :: "byte list \<Rightarrow> int \<times> evp_pkey option"
  cca_get_rsa_pub_key_as_pkey :: "byte list \<Rightarrow> int \<Rightarrow> int \<times> evp_pkey option"
  cca_generate_ecc_key_pair :: "int \<Rightarrow> int \<times> byte list"
  cca_get_ecc_pub_key_as_json_web_key :: "byte list \<Rightarrow> int \<times> json"
  cca_import_key_from_json_web_key :: "json \<Rightarrow> nat \<Rightarrow> int \<times> byte list"
  cca_ec_dh_derive_importer :: "byte list \<Rightarrow> byte list \<Rightarrow> byte list \<Rightarrow> int \<times> byte list"
  cca_import_external_key :: "byte list \<Rightarrow> byte list \<Rightarrow> nat \<Rightarrow> int \<times> byte list"
  ekmf_setup_sign_context :: "byte list \<Rightarrow> evp_pkey \<Rightarrow> int \<Rightarrow> (int \<times> int) option \<Rightarrow> int"
  curl_easy_init :: "nat option"
  curl_easy_escape :: "string \<Rightarrow> string option"
  curl_easy_strerror :: "int \<Rightarrow> string"
  http_setup :: "string \<Rightarrow> string \<Rightarrow> string option \<Rightarrow> string option \<Rightarrow> int \<times> string"
  curl_easy_perform :: "string \<Rightarrow> string \<Rightarrow> string option \<Rightarrow> string option \<Rightarrow> curl_result"
  BIO_new_mem_buf_ok :: "string \<Rightarrow> bool"
  PEM_read_bio_X509_ok :: "string \<Rightarrow> bool"
  X509_get0_pubkey :: "string \<Rightarrow> evp_pkey option"
  PEM_write_PUBKEY_ok :: "string \<Rightarrow> evp_pkey \<Rightarrow> bool"
  fopen_write :: "string \<Rightarrow> int option"
  fwrite_cert :: "string \<Rightarrow> string \<Rightarrow> int option"
  certchain_setup :: int
  certchain_retry_setup :: "bool \<Rightarrow> int"
  certchain_perform :: "bool \<Rightarrow> int"
  certchain_getinfo :: "int \<times> string list list"
  certchain_error_str :: string
  MAX_KEY_BLOB_SIZE :: nat
  MAX_SYM_KEY_BLOB_SIZE :: nat
  stack_status_code :: int
  stack_req_sess_ec_key :: "byte list"
  stack_transport_key :: "byte list"

text \<open>
  The fields of \<^verbatim>\<open>struct ekmf_config\<close> the functions below read themselves. The TLS
  fields only reach libcurl and are part of \<open>http_setup\<close>.
\<close>

record ekmf_config =
  base_url :: string
  ekmf_server_pubkey :: string
  identity_secure_key :: string
  login_token :: "string option"

section \<open>Detached signatures: \<^verbatim>\<open>_ekmf_build_signature\<close> and \<^verbatim>\<open>_ekmf_verify_signature\<close>\<close>

definition RSA_PSS_SALTLEN_DIGEST :: int where "RSA_PSS_SALTLEN_DIGEST = - 1"

text \<open>
  The \<^verbatim>\<open>switch (EVP_PKEY_id(pkey))\<close> of \<^verbatim>\<open>_ekmf_build_signature\<close>: \<open>Inl rc\<close> is
  \<^verbatim>\<open>rc = -EINVAL; goto out\<close>, \<open>Inr\<close> carries \<^verbatim>\<open>jws_alg\<close>, the digest NID after the
  switch, and the RSA-PSS parameters (MGF digest and salt length) where the code
  sets them.
\<close>

definition select_jws_alg :: "evp_pkey \<Rightarrow> int \<Rightarrow> int + (string \<times> int \<times> (int \<times> int) option)" where
  "select_jws_alg pkey digest_nid =
     (if EVP_PKEY_id pkey = EVP_PKEY_EC then
        (let curve_nid = EC_GROUP_curve_name pkey
         in if curve_nid = NID_secp521r1 then Inr (''ES512'', NID_sha512, None)
            else if curve_nid = NID_secp384r1 then Inr (''ES384'', NID_sha384, None)
            else if curve_nid = NID_X9_62_prime256v1 then Inr (''ES256'', NID_sha256, None)
            else Inl (- EINVAL))
      else if EVP_PKEY_id pkey = EVP_PKEY_RSA then
        (if digest_nid = NID_sha256 then Inr (''RS256'', digest_nid, None)
         else if digest_nid = NID_sha384 then Inr (''RS384'', digest_nid, None)
         else if digest_nid = NID_sha512 \<or> digest_nid = 0 then Inr (''RS512'', NID_sha512, None)
         else Inl (- EINVAL))
      else if EVP_PKEY_id pkey = EVP_PKEY_RSA_PSS then
        (if digest_nid = NID_sha256
         then Inr (''PS256'', digest_nid, Some (digest_nid, RSA_PSS_SALTLEN_DIGEST))
         else if digest_nid = NID_sha384
         then Inr (''PS384'', digest_nid, Some (digest_nid, RSA_PSS_SALTLEN_DIGEST))
         else if digest_nid = NID_sha512 \<or> digest_nid = 0
         then Inr (''PS512'', NID_sha512, Some (NID_sha512, RSA_PSS_SALTLEN_DIGEST))
         else Inl (- EINVAL))
      else Inl (- EINVAL))"

text \<open>
  The identity public key, as the first \<^verbatim>\<open>switch\<close> of \<^verbatim>\<open>_ekmf_build_signature\<close>
  gets it. The inner \<^verbatim>\<open>switch (pkey_type)\<close> has no default case: for any other key
  type \<^verbatim>\<open>rc\<close> stays 0 and \<^verbatim>\<open>pkey\<close> stays NULL.
\<close>

definition get_identity_pkey :: "env \<Rightarrow> byte list \<Rightarrow> bool \<Rightarrow> int \<times> evp_pkey option" where
  "get_identity_pkey e key_blob use_rsa_pss =
     (case cca_get_key_type e key_blob of
        (rc, pkey_type) \<Rightarrow>
          if rc \<noteq> 0 then (rc, None)
          else if pkey_type = EVP_PKEY_EC then cca_get_ecc_pub_key_as_pkey e key_blob
          else if pkey_type = EVP_PKEY_RSA \<or> pkey_type = EVP_PKEY_RSA_PSS
          then cca_get_rsa_pub_key_as_pkey e key_blob
                 (if use_rsa_pss then EVP_PKEY_RSA_PSS else EVP_PKEY_RSA)
          else (rc, None))"

text \<open>
  \<^verbatim>\<open>_ekmf_build_signature\<close> returns the code, the signature object (NULL unless it
  succeeds) and the trace. The result \<open>None\<close> is the one path on which the C function
  does not return: \<^verbatim>\<open>EVP_PKEY_id\<close> applied to a NULL key.
\<close>

definition ekmf_build_signature ::
  "env \<Rightarrow> ekmf_ext_lib_type \<Rightarrow> byte list \<Rightarrow> json \<Rightarrow> int \<Rightarrow> bool \<Rightarrow> string option
     \<Rightarrow> (int \<times> json \<times> event list) option" where
  "ekmf_build_signature e ext_lib key_blob payload_obj digest_nid use_rsa_pss jws_kid =
     (case ext_lib of
        EKMF_EXT_LIB_OTHER t \<Rightarrow> Some (- EINVAL, JNull, [])
      | EKMF_EXT_LIB_CCA \<Rightarrow>
          (case get_identity_pkey e key_blob use_rsa_pss of
             (rc, pkey_opt) \<Rightarrow>
               if rc \<noteq> 0 then Some (rc, JNull, [])
               else
                 (case pkey_opt of
                    None \<Rightarrow> None
                  | Some pkey \<Rightarrow>
                      (case select_jws_alg pkey digest_nid of
                         Inl rc \<Rightarrow> Some (rc, JNull, [])
                       | Inr (jws_alg, digest_nid', rsa_pss_params) \<Rightarrow>
                           (let rc = ekmf_setup_sign_context e key_blob pkey digest_nid' rsa_pss_params;
                                ev1 = [EvSetupSignContext (EVP_PKEY_id pkey) digest_nid']
                            in if rc \<noteq> 0 then Some (rc, JNull, ev1)
                               else
                                 (case json_object_to_json_string_ext e payload_obj of
                                    None \<Rightarrow> Some (- EIO, JNull, ev1)
                                  | Some payload \<Rightarrow>
                                      (case create_json_web_signature e jws_alg jws_kid payload of
                                         (rc, jws) \<Rightarrow>
                                           if rc \<noteq> 0
                                           then Some (rc, JNull, ev1 @ [EvCreateJws jws_alg payload])
                                           else Some (0, json_object_new_string jws,
                                                      ev1 @ [EvCreateJws jws_alg payload]))))))))"

text \<open>
  \<^verbatim>\<open>_ekmf_verify_signature\<close> returns the code, the response object as the function
  leaves it (the C function changes it in place) and the trace.
\<close>

definition ekmf_verify_signature ::
  "env \<Rightarrow> json \<Rightarrow> evp_pkey option \<Rightarrow> int \<times> json \<times> event list" where
  "ekmf_verify_signature e response_obj server_pubkey =
     (if response_obj = JNull then (- EINVAL, response_obj, [])
      else
        (let signature_obj = snd (json_object_object_get_ex response_obj ''signature'')
         in if signature_obj = JNull \<or> \<not> json_object_is_type signature_obj json_type_string
            then (- EIO, response_obj, [])
            else
              (let response_obj' = json_object_object_del response_obj ''signature''
               in case json_object_to_json_string_ext e response_obj' of
                    None \<Rightarrow> (- ENOMEM, response_obj', [])
                  | Some sign_payload \<Rightarrow>
                      (verify_json_web_signature e (json_object_get_string signature_obj)
                         sign_payload server_pubkey,
                       response_obj',
                       [EvVerifyJws (json_object_get_string signature_obj) sign_payload
                          server_pubkey]))))"

section \<open>The login token: \<^verbatim>\<open>ekmf_check_login_token\<close>\<close>

text \<open>A C string ends at its first NUL byte.\<close>

definition c_string :: "string \<Rightarrow> string" where
  "c_string s = takeWhile (\<lambda>c. c \<noteq> CHR 0x00) s"

text \<open>
  The two claim checks of \<^verbatim>\<open>ekmf_check_login_token\<close>, from
  \<^verbatim>\<open>json_object_object_get_ex(jwt_payload, "exp", ...)\<close> to the end of the \<^verbatim>\<open>nbf\<close>
  block, started with \<^verbatim>\<open>*valid = true\<close> and \<^verbatim>\<open>rc = 0\<close>. The result is \<^verbatim>\<open>rc\<close> and
  \<^verbatim>\<open>*valid\<close>. \<^verbatim>\<open>now\<close> is a \<^verbatim>\<open>time_t\<close> and the claims are \<^verbatim>\<open>int64_t\<close>: both are
  compared as signed 64-bit values.
\<close>

definition check_token_claims :: "int \<Rightarrow> json \<Rightarrow> int \<times> bool" where
  "check_token_claims now jwt_payload =
     (let (exp_found, exp_claim) = json_object_object_get_ex jwt_payload ''exp'';
          exp_is_int = (exp_found \<and> json_object_is_type exp_claim json_type_int);
          exp_val = json_object_get_int64 exp_claim
      in if exp_is_int \<and> exp_val = 0 then (- EIO, True)
         else
           (let valid1 = (if exp_is_int \<and> now > exp_val then False else True);
                (nbf_found, nbf_claim) = json_object_object_get_ex jwt_payload ''nbf'';
                nbf_is_int = (nbf_found \<and> json_object_is_type nbf_claim json_type_int);
                nbf_val = json_object_get_int64 nbf_claim
            in if nbf_is_int \<and> nbf_val = 0 then (- EIO, valid1)
               else (0, if nbf_is_int \<and> now \<le> nbf_val then False else valid1)))"

text \<open>
  The value of the claim \<open>name\<close> as the two checks read it: \<open>None\<close> when the payload
  has no such field or the field is not of type \<^verbatim>\<open>json_type_int\<close>.
\<close>

definition int_claim :: "json \<Rightarrow> string \<Rightarrow> int option" where
  "int_claim jwt_payload name =
     (case json_object_object_get_ex jwt_payload name of
        (found, claim) \<Rightarrow>
          if found \<and> json_object_is_type claim json_type_int
          then Some (json_object_get_int64 claim) else None)"

text \<open>
  Reading the token file, from \<^verbatim>\<open>stat\<close> to \<^verbatim>\<open>fclose\<close>: \<open>Inl rc\<close> is a return with that
  code before \<^verbatim>\<open>*valid\<close> is written, \<open>Inr\<close> the token as a C string.
\<close>

definition read_login_token :: "env \<Rightarrow> string \<Rightarrow> int + string" where
  "read_login_token e file =
     (case stat_size e file of
        Inl errno \<Rightarrow> Inl (- errno)
      | Inr st_size \<Rightarrow>
          if st_size = 0 then Inl (- EIO)
          else if \<not> malloc_ok e (st_size + 1) then Inl (- ENOMEM)
          else
            (case fopen_read e file of
               Inl errno \<Rightarrow> Inl (- errno)
             | Inr content \<Rightarrow>
                 if min st_size (length content) \<noteq> st_size then Inl (- EIO)
                 else
                   (let token = take st_size content
                    in Inr (c_string (if last token = CHR 0x0A then butlast token else token)))))"

text \<open>
  \<^verbatim>\<open>ekmf_check_login_token(config, valid, login_token, verbose)\<close>. The two flags say
  whether \<^verbatim>\<open>valid\<close> and \<^verbatim>\<open>login_token\<close> are non-NULL. The result is the code, what was
  written to \<^verbatim>\<open>*valid\<close> (\<open>None\<close>: nothing) and what \<^verbatim>\<open>*login_token\<close> holds (\<open>None\<close>:
  NULL, or not written).
\<close>

definition ekmf_check_login_token ::
  "env \<Rightarrow> ekmf_config option \<Rightarrow> bool \<Rightarrow> bool \<Rightarrow> int \<times> bool option \<times> string option" where
  "ekmf_check_login_token e config valid_ptr login_token_ptr =
     (case config of
        None \<Rightarrow> (- EINVAL, None, None)
      | Some cfg \<Rightarrow>
          if \<not> valid_ptr then (- EINVAL, None, None)
          else
            (case login_token cfg of
               None \<Rightarrow> (0, Some False, None)
             | Some file \<Rightarrow>
                 (case read_login_token e file of
                    Inl rc \<Rightarrow> (rc, None, None)
                  | Inr token \<Rightarrow>
                      (case parse_json_web_token e token of
                         (rc, jwt_payload) \<Rightarrow>
                           if rc \<noteq> 0 then (rc, Some True, None)
                           else
                             (case check_token_claims (time_now e) jwt_payload of
                                (rc, valid) \<Rightarrow>
                                  if rc \<noteq> 0 then (rc, Some valid, None)
                                  else (0, Some valid,
                                        if login_token_ptr \<and> valid then Some token else None))))))"

section \<open>The transport: \<^verbatim>\<open>_ekmf_get_api_error\<close> and \<^verbatim>\<open>_ekmf_perform_request\<close>\<close>

text \<open>The text \<^verbatim>\<open>printf\<close> gives for \<^verbatim>\<open>%d\<close>.\<close>

fun string_of_nat :: "nat \<Rightarrow> string" where
  "string_of_nat n =
     (if n < 10 then [''0123456789'' ! n]
      else string_of_nat (n div 10) @ [''0123456789'' ! (n mod 10)])"

declare string_of_nat.simps [simp del]

definition string_of_int :: "int \<Rightarrow> string" where
  "string_of_int i = (if i < 0 then CHR ''-'' # string_of_nat (nat (- i)) else string_of_nat (nat i))"

text \<open>
  \<^verbatim>\<open>_ekmf_get_api_error(response_obj, error_msg)\<close>: the flag says whether \<^verbatim>\<open>error_msg\<close>
  is non-NULL; the result is the code and the text stored in \<^verbatim>\<open>*error_msg\<close>.
\<close>

definition ekmf_get_api_error :: "env \<Rightarrow> json \<Rightarrow> bool \<Rightarrow> int \<times> string option" where
  "ekmf_get_api_error e response_obj error_msg_ptr =
     (if response_obj = JNull \<or> \<not> error_msg_ptr then (- EINVAL, None)
      else if \<not> json_object_is_type response_obj json_type_object then (- EBADMSG, None)
      else
        (case json_object_object_get_ex response_obj ''code'' of
           (code_found, code_field) \<Rightarrow>
             if \<not> code_found then (- EBADMSG, None)
             else if \<not> json_object_is_type code_field json_type_int then (- EBADMSG, None)
             else
               (let code = json_object_get_int code_field
                in case json_object_object_get_ex response_obj ''message'' of
                     (message_found, message_field) \<Rightarrow>
                       if \<not> message_found then (- EBADMSG, None)
                       else if \<not> json_object_is_type message_field json_type_string
                       then (- EBADMSG, None)
                       else
                         (let msg = ''EKMFWeb: '' @ string_of_int code @ '': '' @
                                (case json_object_get_string message_field of
                                   Some m \<Rightarrow> m | None \<Rightarrow> ''(null)'')
                          in if \<not> asprintf_ok e msg then (- ENOMEM, None)
                             else (0, Some msg)))))"

definition CURLE_OK :: int where "CURLE_OK = 0"

text \<open>
  The pattern \<^verbatim>\<open>if (error_msg != NULL && *error_msg == NULL) { if (asprintf(error_msg,
  text) < 0) error_msg = NULL; }\<close> on the pair of the pointer flag and the text stored.
\<close>

definition set_error_text :: "env \<Rightarrow> string \<Rightarrow> bool \<times> string option \<Rightarrow> bool \<times> string option" where
  "set_error_text e txt st =
     (if fst st \<and> snd st = None
      then (if asprintf_ok e txt then (True, Some txt) else (False, None))
      else st)"

text \<open>The block after the label \<^verbatim>\<open>out\<close> of \<^verbatim>\<open>_ekmf_perform_request\<close>.\<close>

definition perform_request_out ::
  "env \<Rightarrow> int \<Rightarrow> string \<Rightarrow> bool \<times> string option \<Rightarrow> int \<times> string option" where
  "perform_request_out e rc error_str st =
     (if rc > 0 \<and> fst st \<and> snd st = None
      then (let txt = ''CURL: '' @ (if length error_str > 0 then error_str
                                    else curl_easy_strerror e rc)
            in if asprintf_ok e txt then (rc, Some txt) else (- ENOMEM, None))
      else (rc, snd st))"

text \<open>
  The body handed to the transfer: the printed request data, for a request other than
  \<^verbatim>\<open>GET\<close> that has data.
\<close>

definition request_body :: "env \<Rightarrow> string \<Rightarrow> json \<Rightarrow> string option" where
  "request_body e request request_data =
     (if request \<noteq> ''GET'' \<and> request_data \<noteq> JNull
      then json_object_to_json_string_ext e request_data else None)"

text \<open>
  \<^verbatim>\<open>_ekmf_perform_request\<close> as its callers in the file use it: \<^verbatim>\<open>config\<close>, \<^verbatim>\<open>uri\<close>,
  \<^verbatim>\<open>request\<close>, \<^verbatim>\<open>status_code\<close>, \<^verbatim>\<open>curl\<close> and \<^verbatim>\<open>response_data\<close> non-NULL, no request or
  response headers. The result is the code, \<^verbatim>\<open>*response_data\<close>, \<^verbatim>\<open>*status_code\<close>,
  \<^verbatim>\<open>*error_msg\<close> and the trace.
\<close>

definition ekmf_perform_request ::
  "env \<Rightarrow> ekmf_config \<Rightarrow> string \<Rightarrow> string \<Rightarrow> json \<Rightarrow> string option \<Rightarrow> bool
     \<Rightarrow> int \<times> json \<times> int \<times> string option \<times> event list" where
  "ekmf_perform_request e config uri request request_data login_token' error_msg_ptr =
     (let url = base_url config @ uri
      in if \<not> asprintf_ok e url then (- ENOMEM, JNull, stack_status_code e, None, [])
         else
           (let body = request_body e request request_data;
                setup = http_setup e url request body login_token'
            in if fst setup \<noteq> CURLE_OK
               then (case perform_request_out e (fst setup) (snd setup) (error_msg_ptr, None) of
                       (rc, msg) \<Rightarrow> (rc, JNull, stack_status_code e, msg, []))
               else
                 (let r = curl_easy_perform e url request body login_token';
                      ev = [EvHttpRequest request url body login_token']
                  in if cr_rc r \<noteq> CURLE_OK
                     then
                       (let rc1 = (if cr_header_error r then - EBADMSG else cr_rc r);
                            st1 = (if cr_header_error r
                                   then set_error_text e ''Unexpected response Content-Type''
                                          (error_msg_ptr, None)
                                   else (error_msg_ptr, None));
                            rc2 = (if cr_write_error r then - EBADMSG else rc1);
                            st2 = (if cr_write_error r
                                   then set_error_text e
                                          ''Failed to JSON parse the response content'' st1
                                   else st1)
                        in case perform_request_out e rc2 (cr_error_str r) st2 of
                             (rc, msg) \<Rightarrow> (rc, JNull, stack_status_code e, msg, ev))
                     else if cr_getinfo_rc r \<noteq> CURLE_OK
                     then (case perform_request_out e (cr_getinfo_rc r) (cr_error_str r)
                                  (error_msg_ptr, None) of
                             (rc, msg) \<Rightarrow> (rc, JNull, stack_status_code e, msg, ev))
                     else if cr_status_code r \<ge> 400 \<and> cr_obj r \<noteq> JNull \<and> error_msg_ptr
                     then (case ekmf_get_api_error e (cr_obj r) error_msg_ptr of
                             (rc_api, msg_api) \<Rightarrow>
                               (case perform_request_out e rc_api (cr_error_str r)
                                       (error_msg_ptr, msg_api) of
                                  (rc, msg) \<Rightarrow> (rc, JNull, cr_status_code r, msg, ev)))
                     else (case perform_request_out e 0 (cr_error_str r) (error_msg_ptr, None) of
                             (rc, msg) \<Rightarrow> (rc, cr_obj r, cr_status_code r, msg, ev)))))"

section \<open>Key agreement: \<^verbatim>\<open>_ekmf_build_party_info\<close> and \<^verbatim>\<open>_ekmf_import_key\<close>\<close>

text \<open>
  \<^verbatim>\<open>_ekmf_build_party_info\<close>: the last argument is the buffer size in
  \<^verbatim>\<open>*party_info_length\<close>; the result is the code, the raw party info (its length is
  the new \<^verbatim>\<open>*party_info_length\<close>) and the party info object.
\<close>

definition ekmf_build_party_info ::
  "env \<Rightarrow> string \<Rightarrow> string \<Rightarrow> int \<Rightarrow> nat \<Rightarrow> int \<times> byte list \<times> json" where
  "ekmf_build_party_info e key_uuid timestamp digest_nid party_info_length =
     (let nid = (if digest_nid \<noteq> 0 then digest_nid else NID_sha256)
      in case EVP_get_digestbynid e nid of
           None \<Rightarrow> (- EINVAL, [], JNull)
         | Some md_size \<Rightarrow>
             if party_info_length < md_size then (- ERANGE, [], JNull)
             else if \<not> EVP_MD_CTX_create_ok e then (- ENOMEM, [], JNull)
             else if EVP_DigestInit_ex e nid \<noteq> 1 then (- EIO, [], JNull)
             else if EVP_DigestUpdate e key_uuid \<noteq> 1 then (- EIO, [], JNull)
             else if EVP_DigestUpdate e timestamp \<noteq> 1 then (- EIO, [], JNull)
             else if EVP_DigestFinal_ex e nid (key_uuid @ timestamp) \<noteq> 1 then (- EIO, [], JNull)
             else
               (let party_info = EVP_Digest e nid (key_uuid @ timestamp)
                in (0, party_info, json_object_new_base64url e party_info)))"

text \<open>
  A local buffer after a backend call has written its output at the start of it.
\<close>

definition buf_write :: "byte list \<Rightarrow> byte list \<Rightarrow> byte list" where
  "buf_write buf out = out @ drop (length out) buf"

text \<open>
  \<^verbatim>\<open>_ekmf_import_key\<close>. A pointer with its length is the list of the bytes it denotes,
  so \<^verbatim>\<open>memcpy\<close> appends. The result is the code, the bytes written to the caller's
  \<^verbatim>\<open>key_blob\<close> (\<open>None\<close>: the unwrap was not reached), the trace, and the content of the
  local \<^verbatim>\<open>transport_key\<close> buffer when the function returns.
\<close>

definition ekmf_import_key ::
  "env \<Rightarrow> ekmf_ext_lib_type \<Rightarrow> byte list \<Rightarrow> byte list \<Rightarrow> byte list \<Rightarrow> json \<Rightarrow> json \<Rightarrow> nat
     \<Rightarrow> int \<times> byte list option \<times> event list \<times> byte list" where
  "ekmf_import_key e ext_lib req_sess_key req_party_info resp_party_info resp_sess_jwk_obj
       resp_exp_jwk_obj key_blob_length =
     (let party_info_length = length req_party_info + length resp_party_info
      in if \<not> malloc_ok e party_info_length
         then (- ENOMEM, None, [], stack_transport_key e)
         else
           (let party_info = req_party_info @ resp_party_info
            in case ext_lib of
                 EKMF_EXT_LIB_OTHER t \<Rightarrow> (- EINVAL, None, [], stack_transport_key e)
               | EKMF_EXT_LIB_CCA \<Rightarrow>
                   (case cca_import_key_from_json_web_key e resp_sess_jwk_obj
                           (MAX_KEY_BLOB_SIZE e) of
                      (rc1, resp_sess_key) \<Rightarrow>
                        if rc1 \<noteq> 0
                        then (rc1, None, [EvImportJwk resp_sess_jwk_obj], stack_transport_key e)
                        else
                          (case cca_ec_dh_derive_importer e req_sess_key resp_sess_key
                                  party_info of
                             (rc2, transport_key) \<Rightarrow>
                               (let tbuf = buf_write (stack_transport_key e) transport_key;
                                    ev2 = [EvImportJwk resp_sess_jwk_obj,
                                           EvDeriveImporter req_sess_key resp_sess_key party_info]
                                in if rc2 \<noteq> 0 then (rc2, None, ev2, tbuf)
                                   else
                                     (case cca_import_key_from_json_web_key e resp_exp_jwk_obj
                                             (MAX_SYM_KEY_BLOB_SIZE e) of
                                        (rc3, resp_exported_key) \<Rightarrow>
                                          if rc3 \<noteq> 0
                                          then (rc3, None, ev2 @ [EvImportJwk resp_exp_jwk_obj],
                                                tbuf)
                                          else
                                            (case cca_import_external_key e resp_exported_key
                                                    transport_key key_blob_length of
                                               (rc4, key_blob) \<Rightarrow>
                                                 (rc4, Some key_blob,
                                                  ev2 @ [EvImportJwk resp_exp_jwk_obj,
                                                         EvImportExternalKey resp_exported_key
                                                           transport_key],
                                                  tbuf))))))))"

section \<open>The orchestrator: \<^verbatim>\<open>ekmf_retrieve_key\<close>\<close>

definition SHA512_DIGEST_LENGTH :: nat where "SHA512_DIGEST_LENGTH = 64"

text \<open>
  \<^verbatim>\<open>_ekmf_get_curl_handle(curl_handle, &curl)\<close> with \<^verbatim>\<open>curl\<close> initially NULL: the code and
  the handle.
\<close>

definition ekmf_get_curl_handle :: "env \<Rightarrow> nat option option \<Rightarrow> int \<times> nat option" where
  "ekmf_get_curl_handle e curl_handle =
     (let curl = (case curl_handle of None \<Rightarrow> None | Some h \<Rightarrow> h);
          curl' = (if curl = None then curl_easy_init e else curl)
      in if curl' = None then (- EIO, curl') else (0, curl'))"

text \<open>
  \<^verbatim>\<open>ekmf_retrieve_key\<close> is modelled in the four parts it is written in, each a
  definition, and their composition. Releasing objects and the CURL handle after the
  label \<^verbatim>\<open>out\<close> changes nothing the model observes and is left out.

  The first part runs from the login-token check to \<^verbatim>\<open>_ekmf_build_party_info\<close>. It
  gives \<open>Inl\<close> of the code and of the content of the local buffer \<^verbatim>\<open>req_sess_ec_key\<close> when
  the function leaves there, else what the later parts need.
\<close>

datatype retrieve_ctx =
  RetrieveCtx (ctx_login_token: "string option") (ctx_server_pubkey: "evp_pkey option")
    (ctx_identity_key: "byte list") (ctx_req_sess_ec_key: "byte list")
    (ctx_req_sess_ec_key_buf: "byte list") (ctx_req_sess_jwk_obj: json)
    (ctx_req_timestamp: string) (ctx_req_party_info: "byte list")
    (ctx_req_party_info_obj: json)

definition retrieve_prepare ::
  "env \<Rightarrow> ekmf_config \<Rightarrow> nat option option \<Rightarrow> string \<Rightarrow> int \<Rightarrow> ekmf_ext_lib_type
     \<Rightarrow> (int \<times> byte list) + retrieve_ctx" where
  "retrieve_prepare e config curl_handle key_uuid sess_ec_curve_nid ext_lib =
     (case ekmf_check_login_token e (Some config) True True of
        (rc_tok, valid, token) \<Rightarrow>
          if rc_tok \<noteq> 0 \<or> \<not> (case valid of None \<Rightarrow> False | Some b \<Rightarrow> b)
          then Inl (- EACCES, stack_req_sess_ec_key e)
          else if fst (ekmf_get_curl_handle e curl_handle) \<noteq> 0
          then Inl (- EIO, stack_req_sess_ec_key e)
          else
            (case read_public_key e (ekmf_server_pubkey config) of
               (rc_pub, server_pubkey) \<Rightarrow>
                 if rc_pub \<noteq> 0 then Inl (rc_pub, stack_req_sess_ec_key e)
                 else
                   (case read_key_blob e (identity_secure_key config) of
                      (rc_id, identity_key) \<Rightarrow>
                        if rc_id \<noteq> 0 then Inl (rc_id, stack_req_sess_ec_key e)
                        else
                          (case ext_lib of
                             EKMF_EXT_LIB_OTHER t \<Rightarrow> Inl (- EINVAL, stack_req_sess_ec_key e)
                           | EKMF_EXT_LIB_CCA \<Rightarrow>
                               (case cca_generate_ecc_key_pair e
                                       (if sess_ec_curve_nid \<noteq> 0 then sess_ec_curve_nid
                                        else DEFAULT_SESSION_EC_KEY_CURVE) of
                                  (rc_gen, req_sess_ec_key) \<Rightarrow>
                                    (let buf = buf_write (stack_req_sess_ec_key e) req_sess_ec_key
                                     in if rc_gen \<noteq> 0 then Inl (rc_gen, buf)
                                        else
                                          (case cca_get_ecc_pub_key_as_json_web_key e
                                                  req_sess_ec_key of
                                             (rc_jwk, req_sess_jwk_obj) \<Rightarrow>
                                               if rc_jwk \<noteq> 0 then Inl (rc_jwk, buf)
                                               else
                                                 (case get_json_timestamp e of
                                                    None \<Rightarrow> Inl (- EIO, buf)
                                                  | Some timestamp \<Rightarrow>
                                                      (case ekmf_build_party_info e key_uuid
                                                              timestamp NID_sha256
                                                              SHA512_DIGEST_LENGTH of
                                                         (rc_pi, party_info, party_info_obj) \<Rightarrow>
                                                           if rc_pi \<noteq> 0 then Inl (rc_pi, buf)
                                                           else Inr (RetrieveCtx token
                                                                  server_pubkey identity_key
                                                                  req_sess_ec_key buf
                                                                  req_sess_jwk_obj timestamp
                                                                  party_info
                                                                  party_info_obj))))))))))"

text \<open>
  The second part assembles the request object, from the comment on the order of the
  fields to the last \<^verbatim>\<open>json_object_object_add_ex\<close> before signing: the code and
  \<^verbatim>\<open>request_obj\<close>. Every failing step leaves through \<^verbatim>\<open>out\<close>, so an object is
  written down here once the additions to it have succeeded, in the order of the calls.
\<close>

definition build_request_obj :: "env \<Rightarrow> string \<Rightarrow> json \<Rightarrow> json \<Rightarrow> json \<Rightarrow> int \<times> json" where
  "build_request_obj e key_uuid req_timestamp_obj req_sess_jwk_obj req_party_info_obj =
     (if \<not> json_object_new_object_ok e 0 then (- ENOMEM, JNull)
      else if json_object_object_add_rc e ''kdf'' \<noteq> 0 then (- EIO, JNull)
      else if json_object_object_add_rc e ''requestedKey'' \<noteq> 0 then (- EIO, JNull)
      else if json_object_object_add_rc e ''timestamp'' \<noteq> 0 then (- EIO, JNull)
      else
        (let req_addl_info_obj =
               json_object_object_add
                 (json_object_object_add
                    (json_object_object_add json_object_new_object
                       ''kdf'' (json_object_new_string ''ANS-X9.63-CCA''))
                    ''requestedKey'' (json_object_new_string key_uuid))
                 ''timestamp'' req_timestamp_obj
         in if \<not> json_object_new_object_ok e 1 then (- ENOMEM, JNull)
            else if json_object_object_add_rc e ''session'' \<noteq> 0 then (- EIO, JNull)
            else if json_object_object_add_rc e ''partyInfo'' \<noteq> 0 then (- EIO, JNull)
            else
              (let req_originator_obj =
                     json_object_object_add
                       (json_object_object_add json_object_new_object
                          ''session'' req_sess_jwk_obj)
                       ''partyInfo'' req_party_info_obj
               in if \<not> json_object_new_object_ok e 2 then (- ENOMEM, JNull)
                  else if json_object_object_add_rc e ''originator'' \<noteq> 0 then (- EIO, JNull)
                  else if json_object_object_add_rc e ''additionalInfo'' \<noteq> 0
                  then (- EIO, JNull)
                  else (0, json_object_object_add
                             (json_object_object_add json_object_new_object
                                ''originator'' req_originator_obj)
                             ''additionalInfo'' req_addl_info_obj))))"

text \<open>
  The last part handles the response: the \<^verbatim>\<open>switch (status_code)\<close>, the check of the
  response object, \<^verbatim>\<open>_ekmf_verify_signature\<close>, the extraction of the responder's
  fields and \<^verbatim>\<open>_ekmf_import_key\<close>. The result is the code, the bytes written to
  \<^verbatim>\<open>key_blob\<close> and the trace.
\<close>

definition retrieve_response ::
  "env \<Rightarrow> ekmf_ext_lib_type \<Rightarrow> int \<Rightarrow> json \<Rightarrow> evp_pkey option \<Rightarrow> byte list \<Rightarrow> byte list \<Rightarrow> nat
     \<Rightarrow> int \<times> byte list option \<times> event list" where
  "retrieve_response e ext_lib status_code response_obj server_pubkey req_sess_ec_key
       req_party_info key_blob_length =
     (if status_code = 200 then
        (if response_obj = JNull \<or> \<not> json_object_is_type response_obj json_type_object
         then (- EBADMSG, None, [])
         else
           (case ekmf_verify_signature e response_obj server_pubkey of
              (rc_ver, response_obj', ev) \<Rightarrow>
                if rc_ver \<noteq> 0 then (rc_ver, None, ev)
                else
                  (let resp_originator_obj =
                         snd (json_object_object_get_ex response_obj' ''originator'')
                   in if resp_originator_obj = JNull \<or>
                         \<not> json_object_is_type resp_originator_obj json_type_object
                      then (- EBADMSG, None, ev)
                      else
                        (let resp_sess_jwk_obj =
                               snd (json_object_object_get_ex resp_originator_obj ''session'')
                         in if resp_sess_jwk_obj = JNull \<or>
                               \<not> json_object_is_type resp_sess_jwk_obj json_type_object
                            then (- EBADMSG, None, ev)
                            else
                              (case json_object_get_base64url e resp_originator_obj
                                      ''partyInfo'' False of
                                 (rc_len, sized) \<Rightarrow>
                                   if rc_len \<noteq> 0 then (rc_len, None, ev)
                                   else if \<not> malloc_ok e (length sized) then (- ENOMEM, None, ev)
                                   else
                                     (case json_object_get_base64url e resp_originator_obj
                                             ''partyInfo'' True of
                                        (rc_pi, resp_party_info) \<Rightarrow>
                                          if rc_pi \<noteq> 0 then (rc_pi, None, ev)
                                          else
                                            (let resp_addl_info_obj =
                                                   snd (json_object_object_get_ex response_obj'
                                                          ''additionalInfo'')
                                             in if resp_addl_info_obj = JNull \<or>
                                                   \<not> json_object_is_type resp_addl_info_obj
                                                       json_type_object
                                                then (- EBADMSG, None, ev)
                                                else
                                                  (let resp_exp_jwk_obj =
                                                         snd (json_object_object_get_ex
                                                                resp_addl_info_obj ''exportedKey'')
                                                   in if resp_exp_jwk_obj = JNull \<or>
                                                         \<not> json_object_is_type resp_exp_jwk_obj
                                                             json_type_object
                                                      then (- EBADMSG, None, ev)
                                                      else
                                                        (case ekmf_import_key e ext_lib
                                                                req_sess_ec_key req_party_info
                                                                resp_party_info resp_sess_jwk_obj
                                                                resp_exp_jwk_obj key_blob_length of
                                                           (rc_imp, key_blob, ev_imp, tbuf) \<Rightarrow>
                                                             (rc_imp, key_blob,
                                                              ev @ ev_imp))))))))))
      else if status_code = 400 then (- EBADMSG, None, [])
      else if status_code = 401 then (- EACCES, None, [])
      else if status_code = 403 then (- EPERM, None, [])
      else if status_code = 404 then (- ENOENT, None, [])
      else (- EIO, None, []))"

text \<open>
  What \<^verbatim>\<open>ekmf_retrieve_key\<close> leaves behind: the code, \<^verbatim>\<open>*error_msg\<close> (\<open>None\<close> also when
  the request was not reached and the caller's value stays), the bytes written to
  \<^verbatim>\<open>key_blob\<close>, the trace, and the content of the local buffer \<^verbatim>\<open>req_sess_ec_key\<close> at
  the return.
\<close>

record retrieve_result =
  rr_rc :: int
  rr_error_msg :: "string option"
  rr_key_blob :: "byte list option"
  rr_events :: "event list"
  rr_req_sess_ec_key :: "byte list"

definition EKMF_URI_KEYS_EXPORT :: "string \<Rightarrow> string" where
  "EKMF_URI_KEYS_EXPORT escaped_uuid = ''/api/v1/keys/'' @ escaped_uuid @ ''/export''"

text \<open>
  The third part, from \<^verbatim>\<open>_ekmf_build_signature\<close> to the check of the code of
  \<^verbatim>\<open>_ekmf_perform_request\<close>, followed by the last part. \<open>None\<close> is the path on which
  \<^verbatim>\<open>_ekmf_build_signature\<close> does not return.
\<close>

definition retrieve_exchange ::
  "env \<Rightarrow> ekmf_config \<Rightarrow> string \<Rightarrow> int \<Rightarrow> bool \<Rightarrow> string option \<Rightarrow> nat \<Rightarrow> bool
     \<Rightarrow> ekmf_ext_lib_type \<Rightarrow> retrieve_ctx \<Rightarrow> json \<Rightarrow> retrieve_result option" where
  "retrieve_exchange e config key_uuid sign_rsa_digest_nid use_rsa_pss signature_kid
       key_blob_length error_msg_ptr ext_lib ctx request_obj =
     (case ekmf_build_signature e ext_lib (ctx_identity_key ctx) request_obj
             sign_rsa_digest_nid use_rsa_pss signature_kid of
        None \<Rightarrow> None
      | Some (rc_sig, req_signature_obj, ev_sig) \<Rightarrow>
          Some
            (let buf = ctx_req_sess_ec_key_buf ctx
             in if rc_sig \<noteq> 0
                then \<lparr>rr_rc = rc_sig, rr_error_msg = None, rr_key_blob = None,
                      rr_events = ev_sig, rr_req_sess_ec_key = buf\<rparr>
                else if json_object_object_add_rc e ''signature'' \<noteq> 0
                then \<lparr>rr_rc = - EIO, rr_error_msg = None, rr_key_blob = None,
                      rr_events = ev_sig, rr_req_sess_ec_key = buf\<rparr>
                else
                  (case curl_easy_escape e key_uuid of
                     None \<Rightarrow>
                       \<lparr>rr_rc = - EIO, rr_error_msg = None, rr_key_blob = None,
                        rr_events = ev_sig, rr_req_sess_ec_key = buf\<rparr>
                   | Some escaped_uuid \<Rightarrow>
                       if \<not> asprintf_ok e (EKMF_URI_KEYS_EXPORT escaped_uuid)
                       then \<lparr>rr_rc = - ENOMEM, rr_error_msg = None, rr_key_blob = None,
                             rr_events = ev_sig, rr_req_sess_ec_key = buf\<rparr>
                       else
                         (case ekmf_perform_request e config
                                 (EKMF_URI_KEYS_EXPORT escaped_uuid) ''POST''
                                 (json_object_object_add request_obj ''signature''
                                    req_signature_obj)
                                 (ctx_login_token ctx) error_msg_ptr of
                            (rc_req, response_obj, status_code, error_msg, ev_req) \<Rightarrow>
                              if rc_req \<noteq> 0
                              then \<lparr>rr_rc = (if rc_req > 0 then - EIO else rc_req),
                                    rr_error_msg = error_msg, rr_key_blob = None,
                                    rr_events = ev_sig @ ev_req, rr_req_sess_ec_key = buf\<rparr>
                              else
                                (case retrieve_response e ext_lib status_code response_obj
                                        (ctx_server_pubkey ctx) (ctx_req_sess_ec_key ctx)
                                        (ctx_req_party_info ctx) key_blob_length of
                                   (rc, key_blob, ev_resp) \<Rightarrow>
                                     \<lparr>rr_rc = rc, rr_error_msg = error_msg,
                                      rr_key_blob = key_blob,
                                      rr_events = ev_sig @ ev_req @ ev_resp,
                                      rr_req_sess_ec_key = buf\<rparr>)))))"

text \<open>
  \<^verbatim>\<open>ekmf_retrieve_key\<close>. \<open>key_blob_length\<close> is \<open>None\<close> when \<^verbatim>\<open>key_blob\<close> or
  \<^verbatim>\<open>key_blob_length\<close> is NULL, else the size in \<^verbatim>\<open>*key_blob_length\<close>; the flag says
  whether \<^verbatim>\<open>error_msg\<close> is non-NULL.
\<close>

definition ekmf_retrieve_key ::
  "env \<Rightarrow> ekmf_config option \<Rightarrow> nat option option \<Rightarrow> string option \<Rightarrow> int \<Rightarrow> int \<Rightarrow> bool
     \<Rightarrow> string option \<Rightarrow> nat option \<Rightarrow> bool \<Rightarrow> ekmf_ext_lib_type option
     \<Rightarrow> retrieve_result option" where
  "ekmf_retrieve_key e config curl_handle key_uuid sess_ec_curve_nid sign_rsa_digest_nid
       use_rsa_pss signature_kid key_blob_length error_msg_ptr ext_lib =
     (case (config, key_uuid, key_blob_length, ext_lib) of
        (Some cfg, Some uuid, Some blob_length, Some lib) \<Rightarrow>
          (case retrieve_prepare e cfg curl_handle uuid sess_ec_curve_nid lib of
             Inl (rc, buf) \<Rightarrow>
               Some \<lparr>rr_rc = rc, rr_error_msg = None, rr_key_blob = None, rr_events = [],
                     rr_req_sess_ec_key = buf\<rparr>
           | Inr ctx \<Rightarrow>
               (case build_request_obj e uuid (json_object_new_string (ctx_req_timestamp ctx))
                       (ctx_req_sess_jwk_obj ctx) (ctx_req_party_info_obj ctx) of
                  (rc, request_obj) \<Rightarrow>
                    if rc \<noteq> 0
                    then Some \<lparr>rr_rc = rc, rr_error_msg = None, rr_key_blob = None,
                               rr_events = [], rr_req_sess_ec_key = ctx_req_sess_ec_key_buf ctx\<rparr>
                    else retrieve_exchange e cfg uuid sign_rsa_digest_nid use_rsa_pss
                           signature_kid blob_length error_msg_ptr lib ctx request_obj))
      | _ \<Rightarrow>
          Some \<lparr>rr_rc = - EINVAL, rr_error_msg = None, rr_key_blob = None, rr_events = [],
                rr_req_sess_ec_key = stack_req_sess_ec_key e\<rparr>)"

section \<open>The certificate chain: \<^verbatim>\<open>ekmf_get_server_cert_chain\<close>\<close>

text \<open>
  The block after the label \<^verbatim>\<open>out\<close> of \<^verbatim>\<open>_ekmf_extract_pubkey\<close> closes what is open
  and ends in \<^verbatim>\<open>return 0\<close>: the code the function set in \<^verbatim>\<open>rc\<close> is not returned.
\<close>

definition extract_pubkey_out :: "int \<Rightarrow> event list \<Rightarrow> int \<times> event list" where
  "extract_pubkey_out rc ev = (0, ev)"

definition ekmf_extract_pubkey :: "env \<Rightarrow> string \<Rightarrow> string \<Rightarrow> int \<times> event list" where
  "ekmf_extract_pubkey e cert pub_key_pem =
     (if \<not> BIO_new_mem_buf_ok e cert then (- ENOMEM, [])
      else if \<not> PEM_read_bio_X509_ok e cert then extract_pubkey_out (- EIO) []
      else
        (case X509_get0_pubkey e cert of
           None \<Rightarrow> extract_pubkey_out (- EIO) []
         | Some pkey \<Rightarrow>
             (case fopen_write e pub_key_pem of
                Some errno \<Rightarrow> extract_pubkey_out (- errno) []
              | None \<Rightarrow>
                  if \<not> PEM_write_PUBKEY_ok e pub_key_pem pkey
                  then extract_pubkey_out (- EIO) [EvFopenWrite pub_key_pem]
                  else extract_pubkey_out 0
                         [EvFopenWrite pub_key_pem, EvWritePubkey pub_key_pem pkey])))"

definition CURL_CERTINFO_CERT :: string where "CURL_CERTINFO_CERT = ''Cert:''"

text \<open>
  \<^verbatim>\<open>_ekmf_process_certificate(fp, slist, pub_key_pem, verbose)\<close>: \<open>fp\<close> is the name of the
  open file, \<open>None\<close> for NULL.
\<close>

fun ekmf_process_certificate ::
  "env \<Rightarrow> string option \<Rightarrow> string list \<Rightarrow> string option \<Rightarrow> int \<times> event list" where
  "ekmf_process_certificate e fp [] pub_key_pem = (0, [])"
| "ekmf_process_certificate e fp (data # slist) pub_key_pem =
     (if take (length CURL_CERTINFO_CERT) data = CURL_CERTINFO_CERT then
        (let cert = drop (length CURL_CERTINFO_CERT) data
         in case (case fp of None \<Rightarrow> None | Some f \<Rightarrow> fwrite_cert e f cert) of
              Some errno \<Rightarrow> (- errno, [])
            | None \<Rightarrow>
                (let ev_w = (case fp of None \<Rightarrow> [] | Some f \<Rightarrow> [EvWriteCert f cert])
                 in case pub_key_pem of
                      None \<Rightarrow>
                        (case ekmf_process_certificate e fp slist pub_key_pem of
                           (rc, ev) \<Rightarrow> (rc, ev_w @ ev))
                    | Some pem \<Rightarrow>
                        (case ekmf_extract_pubkey e cert pem of
                           (rc_x, ev_x) \<Rightarrow>
                             if rc_x \<noteq> 0 then (rc_x, ev_w @ ev_x)
                             else
                               (case ekmf_process_certificate e fp slist pub_key_pem of
                                  (rc, ev) \<Rightarrow> (rc, ev_w @ ev_x @ ev)))))
      else ekmf_process_certificate e fp slist pub_key_pem)"

text \<open>
  The loop over the certificates of \<^verbatim>\<open>ekmf_get_server_cert_chain\<close>, from index \<open>i\<close> on:
  the code in \<^verbatim>\<open>rc\<close> when the loop is left, and the trace. It is entered with
  \<^verbatim>\<open>rc = 0\<close>.
\<close>

fun process_cert_chain ::
  "env \<Rightarrow> nat \<Rightarrow> string option \<Rightarrow> string list list \<Rightarrow> string option \<Rightarrow> string option \<Rightarrow> nat
     \<Rightarrow> bool \<Rightarrow> int \<times> event list" where
  "process_cert_chain e i fp [] server_pubkey_pem ca_bundle_pem num_of_certs do_verify = (0, [])"
| "process_cert_chain e i fp (certinfo # rest) server_pubkey_pem ca_bundle_pem num_of_certs
       do_verify =
     (case ekmf_process_certificate e fp certinfo (if i = 0 then server_pubkey_pem else None) of
        (rc, ev) \<Rightarrow>
          if rc \<noteq> 0 then (rc, ev)
          else if i = 0 then
            (if num_of_certs > 1 \<and> ca_bundle_pem \<noteq> None \<and> \<not> do_verify then
               (case ca_bundle_pem of
                  None \<Rightarrow> (0, ev)
                | Some ca \<Rightarrow>
                    (case fopen_write e ca of
                       Some errno \<Rightarrow> (- errno, ev)
                     | None \<Rightarrow>
                         (case process_cert_chain e (Suc i) (Some ca) rest server_pubkey_pem
                                 ca_bundle_pem num_of_certs do_verify of
                            (rc', ev') \<Rightarrow> (rc', ev @ [EvFopenWrite ca] @ ev'))))
             else
               (case process_cert_chain e (Suc i) None rest server_pubkey_pem ca_bundle_pem
                       num_of_certs do_verify of
                  (rc', ev') \<Rightarrow> (rc', ev @ ev')))
          else
            (case process_cert_chain e (Suc i) fp rest server_pubkey_pem ca_bundle_pem
                    num_of_certs do_verify of
               (rc', ev') \<Rightarrow> (rc', ev @ ev')))"

definition CURLE_FAILED_INIT :: int where "CURLE_FAILED_INIT = 2"
definition CURLE_SSL_CACERT :: int where "CURLE_SSL_CACERT = 60"

text \<open>
  The block after the label \<^verbatim>\<open>out\<close> of \<^verbatim>\<open>ekmf_get_server_cert_chain\<close>, on \<^verbatim>\<open>rc\<close> and
  the flag of \<^verbatim>\<open>error_msg\<close>: the code returned and \<^verbatim>\<open>*error_msg\<close>.
\<close>

definition cert_chain_out :: "env \<Rightarrow> int \<Rightarrow> bool \<Rightarrow> int \<times> string option" where
  "cert_chain_out e rc error_msg_ptr =
     (let txt = ''CURL: '' @ (if length (certchain_error_str e) > 0 then certchain_error_str e
                               else curl_easy_strerror e rc);
          st = (if rc > 0 \<and> error_msg_ptr
                then (if asprintf_ok e txt then (rc, Some txt) else (- ENOMEM, None))
                else (rc, None))
      in (if fst st > 0 then - EIO else fst st, snd st))"

text \<open>
  \<^verbatim>\<open>ekmf_get_server_cert_chain\<close>: the flags say whether \<^verbatim>\<open>verified\<close> and \<^verbatim>\<open>error_msg\<close> are
  non-NULL. The result is the code, \<^verbatim>\<open>*verified\<close> (\<open>None\<close>: not written), \<^verbatim>\<open>*error_msg\<close>
  and the trace. The retry without peer verification is taken once, since it clears
  \<^verbatim>\<open>do_verify\<close>.
\<close>

definition cert_chain_transfer :: "env \<Rightarrow> int \<times> bool" where
  "cert_chain_transfer e =
     (if certchain_retry_setup e True \<noteq> CURLE_OK then (certchain_retry_setup e True, True)
      else if certchain_perform e True = CURLE_SSL_CACERT then
        (if certchain_retry_setup e False \<noteq> CURLE_OK then (certchain_retry_setup e False, False)
         else (certchain_perform e False, False))
      else (certchain_perform e True, True))"

definition ekmf_get_server_cert_chain ::
  "env \<Rightarrow> ekmf_config option \<Rightarrow> string option \<Rightarrow> string option \<Rightarrow> string option \<Rightarrow> bool \<Rightarrow> bool
     \<Rightarrow> int \<times> bool option \<times> string option \<times> event list" where
  "ekmf_get_server_cert_chain e config server_cert_pem server_pubkey_pem ca_bundle_pem
       verified_ptr error_msg_ptr =
     (case config of
        None \<Rightarrow> (- EINVAL, None, None, [])
      | Some cfg \<Rightarrow>
          if curl_easy_init e = None then (CURLE_FAILED_INIT, None, None, [])
          else if certchain_setup e \<noteq> CURLE_OK
          then (case cert_chain_out e (certchain_setup e) error_msg_ptr of
                  (rc, msg) \<Rightarrow> (rc, None, msg, []))
          else
            (case cert_chain_transfer e of
               (rc_t, do_verify) \<Rightarrow>
                 if rc_t \<noteq> CURLE_OK
                 then (case cert_chain_out e rc_t error_msg_ptr of
                         (rc, msg) \<Rightarrow> (rc, None, msg, []))
                 else
                   (let verified = (if verified_ptr then Some do_verify else None)
                    in if fst (certchain_getinfo e) \<noteq> CURLE_OK
                       then (case cert_chain_out e (fst (certchain_getinfo e)) error_msg_ptr of
                               (rc, msg) \<Rightarrow> (rc, verified, msg, []))
                       else
                         (case (case server_cert_pem of None \<Rightarrow> None
                                | Some f \<Rightarrow> fopen_write e f) of
                            Some errno \<Rightarrow>
                              (case cert_chain_out e (- errno) error_msg_ptr of
                                 (rc, msg) \<Rightarrow> (rc, verified, msg, []))
                          | None \<Rightarrow>
                              (case process_cert_chain e 0 server_cert_pem
                                      (snd (certchain_getinfo e)) server_pubkey_pem
                                      ca_bundle_pem (length (snd (certchain_getinfo e)))
                                      do_verify of
                                 (rc_l, ev) \<Rightarrow>
                                   (case cert_chain_out e rc_l error_msg_ptr of
                                      (rc, msg) \<Rightarrow>
                                        (rc, verified, msg,
                                         (case server_cert_pem of None \<Rightarrow> []
                                          | Some f \<Rightarrow> [EvFopenWrite f]) @ ev)))))))"

section \<open>A sample run\<close>

text \<open>
  A printer in plain form (no spaces, fields in stored order, strings in quotes and
  unescaped) and an environment in which every call succeeds: a token valid from 1000
  to 2000 read at time 1500, an EC identity key on P-521, and a signed response with
  status 200. The theorems below are instantiated on this run and on variants of it.
\<close>

fun join_comma :: "string list \<Rightarrow> string" where
  "join_comma [] = []"
| "join_comma [x] = x"
| "join_comma (x # y # zs) = x @ '','' @ join_comma (y # zs)"

definition json_quote :: "string \<Rightarrow> string" where
  "json_quote s = [CHR 0x22] @ s @ [CHR 0x22]"

primrec json_plain :: "json \<Rightarrow> string" where
  "json_plain JNull = ''null''"
| "json_plain (JBoolean b) = (if b then ''true'' else ''false'')"
| "json_plain (JDouble d) = d"
| "json_plain (JInt i) = string_of_int i"
| "json_plain (JObject kvs) =
     ''{'' @ join_comma (map (\<lambda>kv. json_quote (fst kv) @ '':'' @ snd kv)
                          (map (map_prod id json_plain) kvs)) @ ''}''"
| "json_plain (JArray xs) = ''['' @ join_comma (map json_plain xs) @ '']''"
| "json_plain (JString s) = json_quote s"

definition response_ok :: json where
  "response_ok =
     JObject [(''originator'',
               JObject [(''session'', JObject [(''kty'', JString ''EC'')]),
                        (''partyInfo'', JString ''cmVzcA'')]),
              (''additionalInfo'',
               JObject [(''exportedKey'', JObject [(''kty'', JString ''oct'')])]),
              (''signature'', JString ''srv.sig'')]"

definition config_ok :: ekmf_config where
  "config_ok = \<lparr>base_url = ''https://ekmf'', ekmf_server_pubkey = ''server.pem'',
                 identity_secure_key = ''identity.key'', login_token = Some ''token.jwt''\<rparr>"

definition env_ok :: env where
  "env_ok = \<lparr>
     stat_size = (\<lambda>f. Inr 6),
     fopen_read = (\<lambda>f. Inr (''h.p.s'' @ [CHR 0x0A])),
     malloc_ok = (\<lambda>n. True),
     asprintf_ok = (\<lambda>s. True),
     time_now = 1500,
     parse_json_web_token = (\<lambda>t. (0, JObject [(''exp'', JInt 2000), (''nbf'', JInt 1000)])),
     read_public_key = (\<lambda>f. (0, Some (EVP_PKEY EVP_PKEY_RSA 0 [7]))),
     read_key_blob = (\<lambda>f. (0, [1, 2, 3])),
     get_json_timestamp = Some ''2020-06-01T12:00:00Z'',
     json_object_new_base64url = (\<lambda>b. JString ''cmVx''),
     json_object_get_base64url = (\<lambda>obj key buf. (0, [9, 8])),
     create_json_web_signature = (\<lambda>alg kid payload. (0, alg @ ''.sig'')),
     verify_json_web_signature = (\<lambda>sig payload key. if sig = Some ''srv.sig'' then 0 else - EIO),
     json_object_to_json_string_ext = (\<lambda>obj. Some (json_plain obj)),
     json_object_new_object_ok = (\<lambda>n. True),
     json_object_object_add_rc = (\<lambda>key. 0),
     EVP_get_digestbynid = (\<lambda>nid. if nid = NID_sha256 then Some 32 else None),
     EVP_MD_CTX_create_ok = True,
     EVP_DigestInit_ex = (\<lambda>nid. 1),
     EVP_DigestUpdate = (\<lambda>d. 1),
     EVP_DigestFinal_ex = (\<lambda>nid d. 1),
     EVP_Digest = (\<lambda>nid d. [5, 6]),
     cca_get_key_type = (\<lambda>blob. (0, EVP_PKEY_EC)),
     cca_get_ecc_pub_key_as_pkey = (\<lambda>blob. (0, Some (EVP_PKEY EVP_PKEY_EC NID_secp521r1 [1]))),
     cca_get_rsa_pub_key_as_pkey = (\<lambda>blob t. (0, Some (EVP_PKEY t 0 [2]))),
     cca_generate_ecc_key_pair = (\<lambda>nid. (0, [17, 34, 51])),
     cca_get_ecc_pub_key_as_json_web_key = (\<lambda>blob. (0, JObject [(''kty'', JString ''EC'')])),
     cca_import_key_from_json_web_key = (\<lambda>jwk n. (0, [4, 5])),
     cca_ec_dh_derive_importer = (\<lambda>k1 k2 party_info. (0, [170, 187])),
     cca_import_external_key = (\<lambda>wrapped transport n. (0, [1, 2, 3, 4])),
     ekmf_setup_sign_context = (\<lambda>blob pkey nid pss. 0),
     curl_easy_init = Some 1,
     curl_easy_escape = (\<lambda>s. Some s),
     curl_easy_strerror = (\<lambda>rc. ''curl error''),
     http_setup = (\<lambda>url req body tok. (0, [])),
     curl_easy_perform = (\<lambda>url req body tok. CurlResult 0 False False response_ok [] 0 200),
     BIO_new_mem_buf_ok = (\<lambda>cert. True),
     PEM_read_bio_X509_ok = (\<lambda>cert. True),
     X509_get0_pubkey = (\<lambda>cert. Some (EVP_PKEY EVP_PKEY_RSA 0 [7])),
     PEM_write_PUBKEY_ok = (\<lambda>f k. True),
     fopen_write = (\<lambda>f. None),
     fwrite_cert = (\<lambda>f d. None),
     certchain_setup = 0,
     certchain_retry_setup = (\<lambda>v. 0),
     certchain_perform = (\<lambda>v. 0),
     certchain_getinfo = (0, [[''Subject:CN=ekmf'', ''Cert:PEM1''], [''Cert:PEM2'']]),
     certchain_error_str = [],
     MAX_KEY_BLOB_SIZE = 3500,
     MAX_SYM_KEY_BLOB_SIZE = 725,
     stack_status_code = 0,
     stack_req_sess_ec_key = [255, 255, 255, 255],
     stack_transport_key = [255, 255, 255]\<rparr>"

text \<open>
  A variant in which no certificate can be parsed and the public-key file cannot be
  opened.
\<close>

definition env_bad_certs :: env where
  "env_bad_certs =
     env_ok\<lparr>PEM_read_bio_X509_ok := (\<lambda>c. False),
            fopen_write := (\<lambda>f. if f = ''pub.pem'' then Some EACCES else None)\<rparr>"

text \<open>
  The sample request: the environment above with a given outcome of the transfer, the
  call of \<^verbatim>\<open>ekmf_retrieve_key\<close> for the key \<^verbatim>\<open>key-1\<close>, the request object it assembles,
  and what its first part hands to the later ones. Two outcomes with status 403: one
  with the error object of the API, one with another JSON object.
\<close>

definition env_with_response :: "curl_result \<Rightarrow> env" where
  "env_with_response cr = env_ok\<lparr>curl_easy_perform := (\<lambda>url req body tok. cr)\<rparr>"

definition request_ok :: json where
  "request_ok =
     JObject [(''originator'',
               JObject [(''session'', JObject [(''kty'', JString ''EC'')]),
                        (''partyInfo'', JString ''cmVx'')]),
              (''additionalInfo'',
               JObject [(''kdf'', JString ''ANS-X9.63-CCA''),
                        (''requestedKey'', JString ''key-1''),
                        (''timestamp'', JString ''2020-06-01T12:00:00Z'')])]"

definition retrieve_sample :: "curl_result \<Rightarrow> retrieve_result option" where
  "retrieve_sample cr =
     ekmf_retrieve_key (env_with_response cr) (Some config_ok) None (Some ''key-1'') 0 0 False
       (Some ''kid'') (Some 64) True (Some EKMF_EXT_LIB_CCA)"

definition ctx_ok :: retrieve_ctx where
  "ctx_ok = RetrieveCtx (Some ''h.p.s'') (Some (EVP_PKEY EVP_PKEY_RSA 0 [7])) [1, 2, 3]
     [17, 34, 51] [17, 34, 51, 255] (JObject [(''kty'', JString ''EC'')])
     ''2020-06-01T12:00:00Z'' [5, 6] (JString ''cmVx'')"

definition signed_request_ok :: json where
  "signed_request_ok = json_object_object_add request_ok ''signature'' (JString ''ES512.sig'')"

definition cr_forbidden :: curl_result where
  "cr_forbidden =
     CurlResult 0 False False
       (JObject [(''code'', JInt 7), (''message'', JString ''no permission'')]) [] 0 403"

definition cr_forbidden_plain :: curl_result where
  "cr_forbidden_plain =
     CurlResult 0 False False (JObject [(''error'', JString ''no permission'')]) [] 0 403"

text \<open>
  A completed exchange with status 200 and the well-formed response of the sample run.
\<close>

definition cr_ok :: curl_result where
  "cr_ok = CurlResult 0 False False response_ok [] 0 200"

section \<open>Algorithm selection of the detached signature\<close>










section \<open>Validity of the login token\<close>

lemma check_token_claims_int_claim:
  "check_token_claims now payload =
     (if int_claim payload ''exp'' = Some 0 then (- EIO, True)
      else if int_claim payload ''nbf'' = Some 0
      then (- EIO, \<not> (case int_claim payload ''exp'' of Some x \<Rightarrow> now > x | None \<Rightarrow> False))
      else (0, \<not> (case int_claim payload ''exp'' of Some x \<Rightarrow> now > x | None \<Rightarrow> False) \<and>
               \<not> (case int_claim payload ''nbf'' of Some y \<Rightarrow> now \<le> y | None \<Rightarrow> False)))"
  by (auto simp: check_token_claims_def int_claim_def Let_def split: prod.splits)

lemma check_login_token_parsed:
  assumes "login_token cfg = Some file" and "read_login_token e file = Inr token"
    and "parse_json_web_token e token = (0, payload)"
  shows "ekmf_check_login_token e (Some cfg) True want =
     (case check_token_claims (time_now e) payload of
        (rc, valid) \<Rightarrow> (rc, Some valid, if rc = 0 \<and> want \<and> valid then Some token else None))"
  using assms by (auto simp: ekmf_check_login_token_def split: prod.splits)



text \<open>
  C4, as amended. For a token that is read and parsed, and whose integer \<^verbatim>\<open>exp\<close> and
  \<^verbatim>\<open>nbf\<close> claims are nonzero, \<^verbatim>\<open>ekmf_check_login_token\<close> returns 0 and reports the token
  invalid exactly when it carries an integer \<^verbatim>\<open>exp\<close> with current time > \<^verbatim>\<open>exp\<close>, or an
  integer \<^verbatim>\<open>nbf\<close> with current time <= \<^verbatim>\<open>nbf\<close>. So a token with \<^verbatim>\<open>exp\<close> only is invalid
  exactly when current time > \<^verbatim>\<open>exp\<close>, one with \<^verbatim>\<open>nbf\<close> only exactly when current time <=
  \<^verbatim>\<open>nbf\<close>, and one with neither is valid. The flag is a function of the two claims and
  the current time; the token is handed out only when it is valid.
\<close>

theorem token_validity_from_both_claims:
  assumes "login_token cfg = Some file" and "read_login_token e file = Inr token"
    and "parse_json_web_token e token = (0, payload)"
    and "int_claim payload ''exp'' \<noteq> Some 0" and "int_claim payload ''nbf'' \<noteq> Some 0"
  shows "ekmf_check_login_token e (Some cfg) True want =
     (let expired = (case int_claim payload ''exp'' of Some x \<Rightarrow> time_now e > x | None \<Rightarrow> False);
          premature = (case int_claim payload ''nbf'' of Some y \<Rightarrow> time_now e \<le> y | None \<Rightarrow> False);
          valid = (\<not> expired \<and> \<not> premature)
      in (0, Some valid, if want \<and> valid then Some token else None))"
  using assms(4,5)
  by (simp add: check_login_token_parsed [OF assms(1,2,3)] check_token_claims_int_claim Let_def)

lemma read_login_token_upd [simp]:
  "read_login_token (e\<lparr>parse_json_web_token := p\<rparr>) file = read_login_token e file"
  "read_login_token (e\<lparr>time_now := t\<rparr>) file = read_login_token e file"
  by (simp_all add: read_login_token_def split: sum.splits)

lemma env_ok_read_token [simp]: "read_login_token env_ok ''token.jwt'' = Inr ''h.p.s''"
  by (simp add: read_login_token_def env_ok_def c_string_def)

theorem token_validity_from_both_claims_witness:
  "login_token config_ok = Some ''token.jwt'' \<and>
   read_login_token env_ok ''token.jwt'' = Inr ''h.p.s'' \<and>
   parse_json_web_token env_ok ''h.p.s'' = (0, JObject [(''exp'', JInt 2000), (''nbf'', JInt 1000)]) \<and>
   int_claim (JObject [(''exp'', JInt 2000), (''nbf'', JInt 1000)]) ''exp'' = Some 2000 \<and>
   int_claim (JObject [(''exp'', JInt 2000), (''nbf'', JInt 1000)]) ''nbf'' = Some 1000 \<and>
   ekmf_check_login_token env_ok (Some config_ok) True True = (0, Some True, Some ''h.p.s'')"
proof -
  have a: "login_token config_ok = Some ''token.jwt''" by (simp add: config_ok_def)
  have c: "parse_json_web_token env_ok ''h.p.s'' =
      (0, JObject [(''exp'', JInt 2000), (''nbf'', JInt 1000)])"
    by (simp add: env_ok_def)
  have x: "int_claim (JObject [(''exp'', JInt 2000), (''nbf'', JInt 1000)]) ''exp'' = Some 2000"
    by (simp add: int_claim_def json_object_is_type_def)
  have y: "int_claim (JObject [(''exp'', JInt 2000), (''nbf'', JInt 1000)]) ''nbf'' = Some 1000"
    by (simp add: int_claim_def json_object_is_type_def)
  have t: "time_now env_ok = 1500" by (simp add: env_ok_def)
  have "ekmf_check_login_token env_ok (Some config_ok) True True = (0, Some True, Some ''h.p.s'')"
    using token_validity_from_both_claims [OF a env_ok_read_token c, of True]
    by (simp add: x y t)
  with a env_ok_read_token c x y show ?thesis by simp
qed

text \<open>
  C4 as stated fails for a token with both claims: with \<^verbatim>\<open>exp = 2000\<close> and
  \<^verbatim>\<open>nbf = 1000\<close>, at time 500 the token is reported invalid although the current time
  is not greater than \<^verbatim>\<open>exp\<close>.
\<close>

theorem expiry_alone_counterexample:
  "int_claim (snd (parse_json_web_token env_ok ''h.p.s'')) ''exp'' = Some 2000 \<and>
   time_now (env_ok\<lparr>time_now := 500\<rparr>) = 500 \<and> \<not> (500 > (2000::int)) \<and>
   ekmf_check_login_token (env_ok\<lparr>time_now := 500\<rparr>) (Some config_ok) True True =
     (0, Some False, None)"
proof -
  have a: "login_token config_ok = Some ''token.jwt''" by (simp add: config_ok_def)
  have c: "parse_json_web_token (env_ok\<lparr>time_now := 500\<rparr>) ''h.p.s'' =
      (0, JObject [(''exp'', JInt 2000), (''nbf'', JInt 1000)])"
    by (simp add: env_ok_def)
  have p: "snd (parse_json_web_token env_ok ''h.p.s'') = JObject [(''exp'', JInt 2000), (''nbf'', JInt 1000)]"
    by (simp add: env_ok_def)
  have x: "int_claim (JObject [(''exp'', JInt 2000), (''nbf'', JInt 1000)]) ''exp'' = Some 2000"
    by (simp add: int_claim_def json_object_is_type_def)
  have y: "int_claim (JObject [(''exp'', JInt 2000), (''nbf'', JInt 1000)]) ''nbf'' = Some 1000"
    by (simp add: int_claim_def json_object_is_type_def)
  have "ekmf_check_login_token (env_ok\<lparr>time_now := 500\<rparr>) (Some config_ok) True True =
      (0, Some False, None)"
    by (simp add: check_login_token_parsed [OF a _ c] check_token_claims_int_claim x y)
  with p x show ?thesis by simp
qed

subsection \<open>Malformed claims\<close>

lemma map_of_filter_key:
  "map_of (filter (\<lambda>kv. fst kv \<noteq> k) kvs) k' = (if k' = k then None else map_of kvs k')"
  by (induction kvs) auto

lemma get_ex_del:
  "json_object_object_get_ex (json_object_object_del obj k) k' =
     (if k' = k then (False, JNull) else json_object_object_get_ex obj k')"
  by (cases obj) (simp_all add: map_of_filter_key)

lemma int_claim_del:
  "int_claim (json_object_object_del obj k) k' = (if k' = k then None else int_claim obj k')"
  by (simp add: int_claim_def get_ex_del)

lemma int_claim_not_int:
  "\<not> json_object_is_type (snd (json_object_object_get_ex obj k)) json_type_int \<Longrightarrow>
   int_claim obj k = None"
  by (cases "json_object_object_get_ex obj k") (auto simp: int_claim_def)

lemma check_token_claims_ignores_non_int:
  assumes "k = ''exp'' \<or> k = ''nbf''"
    and "\<not> json_object_is_type (snd (json_object_object_get_ex payload k)) json_type_int"
  shows "check_token_claims now (json_object_object_del payload k) = check_token_claims now payload"
  using assms by (auto simp: check_token_claims_int_claim int_claim_del int_claim_not_int)


text \<open>
  C5, as amended. For a token that is read and parsed: an integer \<^verbatim>\<open>exp\<close> or \<^verbatim>\<open>nbf\<close> claim
  equal to zero makes \<^verbatim>\<open>ekmf_check_login_token\<close> return \<^verbatim>\<open>-EIO\<close>, a nonzero code; an
  \<^verbatim>\<open>exp\<close> or \<^verbatim>\<open>nbf\<close> claim that is present but not of integer type is ignored, the result
  being that for the same payload without the claim.
\<close>

theorem malformed_claim_zero_or_ignored:
  assumes "login_token cfg = Some file" and "read_login_token e file = Inr token"
    and "parse_json_web_token e token = (0, payload)"
  shows "(int_claim payload ''exp'' = Some 0 \<or> int_claim payload ''nbf'' = Some 0 \<longrightarrow>
            fst (ekmf_check_login_token e (Some cfg) True want) = - EIO \<and> - EIO \<noteq> (0::int)) \<and>
         (\<forall>k. (k = ''exp'' \<or> k = ''nbf'') \<and>
               fst (json_object_object_get_ex payload k) \<and>
               \<not> json_object_is_type (snd (json_object_object_get_ex payload k)) json_type_int \<longrightarrow>
               ekmf_check_login_token e (Some cfg) True want =
               ekmf_check_login_token
                 (e\<lparr>parse_json_web_token := \<lambda>t. (0, json_object_object_del payload k)\<rparr>)
                 (Some cfg) True want)"
proof -
  have zero: "int_claim payload ''exp'' = Some 0 \<or> int_claim payload ''nbf'' = Some 0 \<longrightarrow>
      fst (ekmf_check_login_token e (Some cfg) True want) = - EIO \<and> - EIO \<noteq> (0::int)"
    by (auto simp: check_login_token_parsed [OF assms] check_token_claims_int_claim EIO_def)
  have ignored: "ekmf_check_login_token e (Some cfg) True want =
      ekmf_check_login_token
        (e\<lparr>parse_json_web_token := \<lambda>t. (0, json_object_object_del payload k)\<rparr>) (Some cfg) True want"
    if "k = ''exp'' \<or> k = ''nbf''"
      and "\<not> json_object_is_type (snd (json_object_object_get_ex payload k)) json_type_int"
    for k
  proof -
    let ?e = "e\<lparr>parse_json_web_token := \<lambda>t. (0, json_object_object_del payload k)\<rparr>"
    have r: "read_login_token ?e file = Inr token" using assms(2) by simp
    have p: "parse_json_web_token ?e token = (0, json_object_object_del payload k)" by simp
    show ?thesis
      by (simp add: check_login_token_parsed [OF assms] check_login_token_parsed [OF assms(1) r p]
          check_token_claims_ignores_non_int [OF that])
  qed
  from zero ignored show ?thesis by blast
qed

theorem malformed_claim_zero_or_ignored_witness:
  "login_token config_ok = Some ''token.jwt'' \<and>
   read_login_token (env_ok\<lparr>parse_json_web_token := \<lambda>t. (0, JObject [(''exp'', JInt 0)])\<rparr>)
     ''token.jwt'' = Inr ''h.p.s'' \<and>
   int_claim (JObject [(''exp'', JInt 0)]) ''exp'' = Some 0 \<and>
   fst (ekmf_check_login_token
          (env_ok\<lparr>parse_json_web_token := \<lambda>t. (0, JObject [(''exp'', JInt 0)])\<rparr>)
          (Some config_ok) True True) = - EIO"
proof -
  let ?e = "env_ok\<lparr>parse_json_web_token := \<lambda>t. (0, JObject [(''exp'', JInt 0)])\<rparr>"
  have a: "login_token config_ok = Some ''token.jwt''" by (simp add: config_ok_def)
  have r: "read_login_token ?e ''token.jwt'' = Inr ''h.p.s''" by simp
  have p: "parse_json_web_token ?e ''h.p.s'' = (0, JObject [(''exp'', JInt 0)])" by simp
  have x: "int_claim (JObject [(''exp'', JInt 0)]) ''exp'' = Some 0"
    by (simp add: int_claim_def json_object_is_type_def)
  show ?thesis
    using malformed_claim_zero_or_ignored [OF a r p, of True] a r x by simp
qed

text \<open>
  C5 as stated fails for a claim that is not an integer: with \<^verbatim>\<open>"exp": "soon"\<close> the
  function returns 0, reports the token valid and hands it out.
\<close>

theorem non_integer_claim_counterexample:
  "json_object_object_get_ex
     (snd (parse_json_web_token
        (env_ok\<lparr>parse_json_web_token := \<lambda>t. (0, JObject [(''exp'', JString ''soon'')])\<rparr>) ''h.p.s''))
     ''exp'' = (True, JString ''soon'') \<and>
   ekmf_check_login_token
     (env_ok\<lparr>parse_json_web_token := \<lambda>t. (0, JObject [(''exp'', JString ''soon'')])\<rparr>)
     (Some config_ok) True True = (0, Some True, Some ''h.p.s'')"
proof -
  let ?e = "env_ok\<lparr>parse_json_web_token := \<lambda>t. (0, JObject [(''exp'', JString ''soon'')])\<rparr>"
  have a: "login_token config_ok = Some ''token.jwt''" by (simp add: config_ok_def)
  have r: "read_login_token ?e ''token.jwt'' = Inr ''h.p.s''" by simp
  have p: "parse_json_web_token ?e ''h.p.s'' = (0, JObject [(''exp'', JString ''soon'')])" by simp
  have x: "int_claim (JObject [(''exp'', JString ''soon'')]) ''exp'' = None"
       "int_claim (JObject [(''exp'', JString ''soon'')]) ''nbf'' = None"
    by (simp_all add: int_claim_def json_object_is_type_def)
  show ?thesis
    by (simp add: check_login_token_parsed [OF a r p] check_token_claims_int_claim x)
qed

section \<open>Verification of the response signature\<close>





section \<open>Party info of the key import\<close>





section \<open>Public-key extraction from the certificate chain\<close>

lemma extract_pubkey_rc:
  "fst (ekmf_extract_pubkey e cert pem) = (if BIO_new_mem_buf_ok e cert then 0 else - ENOMEM)"
  by (simp add: ekmf_extract_pubkey_def extract_pubkey_out_def split: option.splits)

lemma process_certificate_pubkey_rc:
  assumes "\<forall>c. BIO_new_mem_buf_ok e c"
  shows "fst (ekmf_process_certificate e fp slist (Some pem)) =
         fst (ekmf_process_certificate e fp slist None)"
proof (induction slist)
  case Nil
  show ?case by simp
next
  case (Cons data slist)
  have x: "fst (ekmf_extract_pubkey e c pem) = 0" for c
    using assms by (simp add: extract_pubkey_rc)
  show ?case
    using Cons x [of "drop (length CURL_CERTINFO_CERT) data"]
    by (auto simp: Let_def split: option.splits prod.splits)
qed

lemma process_cert_chain_pubkey_rc:
  assumes "\<forall>c. BIO_new_mem_buf_ok e c"
  shows "fst (process_cert_chain e i fp certs (Some pem) ca n v) =
         fst (process_cert_chain e i fp certs None ca n v)"
proof (induction certs arbitrary: i fp ca v)
  case Nil
  show ?case by simp
next
  case (Cons certinfo rest)
  have pc: "fst (ekmf_process_certificate e fp certinfo (Some pem)) =
      fst (ekmf_process_certificate e fp certinfo None)"
    by (rule process_certificate_pubkey_rc [OF assms])
  show ?case
    by (simp add: case_prod_beta Cons pc split: option.splits)
qed

lemma get_server_cert_chain_rc:
  "fst (ekmf_get_server_cert_chain e config cert_pem pk ca vp mp) =
     (case config of
        None \<Rightarrow> - EINVAL
      | Some cfg \<Rightarrow>
          if curl_easy_init e = None then CURLE_FAILED_INIT
          else if certchain_setup e \<noteq> CURLE_OK
          then fst (cert_chain_out e (certchain_setup e) mp)
          else if fst (cert_chain_transfer e) \<noteq> CURLE_OK
          then fst (cert_chain_out e (fst (cert_chain_transfer e)) mp)
          else if fst (certchain_getinfo e) \<noteq> CURLE_OK
          then fst (cert_chain_out e (fst (certchain_getinfo e)) mp)
          else
            (case (case cert_pem of None \<Rightarrow> None | Some f \<Rightarrow> fopen_write e f) of
               Some errno \<Rightarrow> fst (cert_chain_out e (- errno) mp)
             | None \<Rightarrow>
                 fst (cert_chain_out e
                        (fst (process_cert_chain e 0 cert_pem (snd (certchain_getinfo e)) pk ca
                                (length (snd (certchain_getinfo e)))
                                (snd (cert_chain_transfer e))))
                        mp)))"
  by (cases config; cases "cert_chain_transfer e"; cases "fopen_write e (the cert_pem)";
      cases cert_pem)
     (auto simp: ekmf_get_server_cert_chain_def Let_def split: prod.splits)

lemma get_server_cert_chain_pubkey_rc:
  assumes "\<forall>c. BIO_new_mem_buf_ok e c"
  shows "fst (ekmf_get_server_cert_chain e config cert_pem (Some pem) ca vp mp) =
         fst (ekmf_get_server_cert_chain e config cert_pem None ca vp mp)"
  by (simp only: get_server_cert_chain_rc process_cert_chain_pubkey_rc [OF assms])

text \<open>
  C10, as amended. \<^verbatim>\<open>_ekmf_extract_pubkey\<close> returns 0 whenever \<^verbatim>\<open>BIO_new_mem_buf\<close>
  succeeds, also when parsing the certificate, getting its public key, opening the
  output file or writing the key fails; it returns \<^verbatim>\<open>-ENOMEM\<close> when \<^verbatim>\<open>BIO_new_mem_buf\<close>
  fails. So when \<^verbatim>\<open>BIO_new_mem_buf\<close> succeeds, asking
  \<^verbatim>\<open>ekmf_get_server_cert_chain\<close> for the public key never changes its return code.
\<close>

theorem extract_pubkey_failures_not_reported:
  "fst (ekmf_extract_pubkey e cert pub_key_pem) =
     (if BIO_new_mem_buf_ok e cert then 0 else - ENOMEM) \<and>
   ((\<forall>c. BIO_new_mem_buf_ok e c) \<longrightarrow>
      fst (ekmf_get_server_cert_chain e config server_cert_pem (Some pub_key_pem) ca_bundle_pem
             verified_ptr error_msg_ptr) =
      fst (ekmf_get_server_cert_chain e config server_cert_pem None ca_bundle_pem
             verified_ptr error_msg_ptr))"
  using extract_pubkey_rc get_server_cert_chain_pubkey_rc by blast

theorem extract_pubkey_failures_not_reported_witness:
  "(\<forall>c. BIO_new_mem_buf_ok env_bad_certs c) \<and>
   \<not> PEM_read_bio_X509_ok env_bad_certs ''PEM1'' \<and>
   ekmf_extract_pubkey env_bad_certs ''PEM1'' ''pub.pem'' = (0, []) \<and>
   fst (ekmf_get_server_cert_chain env_bad_certs (Some config_ok) (Some ''cert.pem'')
          (Some ''pub.pem'') None True True) = 0"
proof -
  have bio: "\<forall>c. BIO_new_mem_buf_ok env_bad_certs c"
    by (simp add: env_bad_certs_def env_ok_def)
  have pem: "\<not> PEM_read_bio_X509_ok env_bad_certs ''PEM1''"
    by (simp add: env_bad_certs_def)
  have x: "ekmf_extract_pubkey env_bad_certs ''PEM1'' ''pub.pem'' = (0, [])"
    by (simp add: ekmf_extract_pubkey_def extract_pubkey_out_def env_bad_certs_def env_ok_def)
  have "fst (ekmf_get_server_cert_chain env_bad_certs (Some config_ok) (Some ''cert.pem'')
          None None True True) = 0"
    by (simp add: ekmf_get_server_cert_chain_def cert_chain_transfer_def cert_chain_out_def
        env_bad_certs_def env_ok_def CURLE_OK_def CURLE_SSL_CACERT_def CURL_CERTINFO_CERT_def Let_def)
  with extract_pubkey_failures_not_reported [of env_bad_certs "''PEM1''" "''pub.pem''"
      "Some config_ok" "Some ''cert.pem''" None True True] bio pem x
  show ?thesis by simp
qed

text \<open>
  C10 as stated fails when \<^verbatim>\<open>BIO_new_mem_buf\<close> fails: \<^verbatim>\<open>_ekmf_extract_pubkey\<close> returns
  \<^verbatim>\<open>-ENOMEM\<close>, and \<^verbatim>\<open>ekmf_get_server_cert_chain\<close> reports it to its caller.
\<close>

theorem extract_pubkey_enomem_counterexample:
  "ekmf_extract_pubkey (env_ok\<lparr>BIO_new_mem_buf_ok := (\<lambda>c. False)\<rparr>) ''PEM1'' ''pub.pem'' =
     (- ENOMEM, []) \<and> - ENOMEM \<noteq> (0::int) \<and>
   fst (ekmf_get_server_cert_chain (env_ok\<lparr>BIO_new_mem_buf_ok := (\<lambda>c. False)\<rparr>)
          (Some config_ok) (Some ''cert.pem'') (Some ''pub.pem'') None True True) = - ENOMEM"
  by (simp add: ekmf_extract_pubkey_def ekmf_get_server_cert_chain_def cert_chain_transfer_def
      cert_chain_out_def env_ok_def CURLE_OK_def CURLE_SSL_CACERT_def CURL_CERTINFO_CERT_def
      Let_def ENOMEM_def)

section \<open>The HTTP status and the result of the retrieval\<close>

lemma get_api_error_rc_nonpos: "fst (ekmf_get_api_error e obj ptr) \<le> 0"
  by (simp add: ekmf_get_api_error_def Let_def errno_defs split: prod.splits)

lemma perform_request_out_nonpos:
  "rc \<le> 0 \<Longrightarrow> perform_request_out e rc s st = (rc, snd st)"
  by (simp add: perform_request_out_def)

lemma perform_request_events:
  assumes "ekmf_perform_request e cfg uri request data tok emp = (rc, resp, st, msg, ev)"
  shows "ev = [] \<or>
         (ev = [EvHttpRequest request (base_url cfg @ uri) (request_body e request data) tok] \<and>
          asprintf_ok e (base_url cfg @ uri) \<and>
          fst (http_setup e (base_url cfg @ uri) request (request_body e request data) tok) = CURLE_OK)"
  using assms
  by (auto simp: ekmf_perform_request_def request_body_def Let_def split: if_splits prod.splits)

lemma perform_request_completed:
  assumes "asprintf_ok e (base_url cfg @ uri)"
    and "fst (http_setup e (base_url cfg @ uri) request (request_body e request data) tok) = CURLE_OK"
    and "curl_easy_perform e (base_url cfg @ uri) request (request_body e request data) tok =
           CurlResult CURLE_OK herr werr obj estr CURLE_OK status"
  shows "ekmf_perform_request e cfg uri request data tok emp =
     (if status \<ge> 400 \<and> obj \<noteq> JNull \<and> emp
      then (fst (ekmf_get_api_error e obj True), JNull, status,
            snd (ekmf_get_api_error e obj True),
            [EvHttpRequest request (base_url cfg @ uri) (request_body e request data) tok])
      else (0, obj, status, None,
            [EvHttpRequest request (base_url cfg @ uri) (request_body e request data) tok]))"
  using assms get_api_error_rc_nonpos [of e obj True]
  by (auto simp: ekmf_perform_request_def request_body_def Let_def perform_request_out_nonpos
      split: prod.splits)

lemma retrieve_response_not_200:
  "status \<noteq> 200 \<Longrightarrow>
   retrieve_response e lib status obj pk key pi n =
     (if status = 400 then - EBADMSG else if status = 401 then - EACCES
      else if status = 403 then - EPERM else if status = 404 then - ENOENT else - EIO,
      None, [])"
  by (simp add: retrieve_response_def)

lemma verify_signature_events:
  "ekmf_verify_signature e obj pk = (rc, obj', ev) \<Longrightarrow> x \<in> set ev \<Longrightarrow> response_event x"
  by (auto simp: ekmf_verify_signature_def Let_def response_event_def
      split: if_splits option.splits)

lemma import_key_events:
  "ekmf_import_key e lib k a b j1 j2 n = (rc, blob, ev, tbuf) \<Longrightarrow> x \<in> set ev \<Longrightarrow> response_event x"
  by (auto simp: ekmf_import_key_def Let_def response_event_def
      split: if_splits prod.splits ekmf_ext_lib_type.splits)

lemma retrieve_response_events:
  assumes "retrieve_response e lib status obj pk key pi n = (rc, blob, ev)" and "x \<in> set ev"
  shows "response_event x"
  using assms
  by (auto simp: retrieve_response_def Let_def
      split: if_splits prod.splits
      dest: verify_signature_events import_key_events)

lemma build_signature_events:
  assumes "ekmf_build_signature e lib kb obj d pss kid = Some (rc, sig, ev)" and "x \<in> set ev"
  shows "signing_event x"
  using assms
  by (auto simp: ekmf_build_signature_def Let_def signing_event_def
      split: if_splits prod.splits option.splits sum.splits ekmf_ext_lib_type.splits)


lemma not_signing_event [simp]: "\<not> signing_event (EvHttpRequest m u b t)"
  by (simp add: signing_event_def)

lemma not_response_event [simp]: "\<not> response_event (EvHttpRequest m u b t)"
  by (simp add: response_event_def)

lemma retrieve_exchange_sent:
  assumes run: "retrieve_exchange e cfg uuid dnid pss kid n emp lib ctx req = Some r"
    and sent: "EvHttpRequest m u b t \<in> set (rr_events r)"
  shows "\<exists>sig ev_sig esc.
           ekmf_build_signature e lib (ctx_identity_key ctx) req dnid pss kid =
             Some (0, sig, ev_sig) \<and>
           curl_easy_escape e uuid = Some esc \<and>
           m = ''POST'' \<and> u = base_url cfg @ EKMF_URI_KEYS_EXPORT esc \<and>
           b = request_body e ''POST'' (json_object_object_add req ''signature'' sig) \<and>
           t = ctx_login_token ctx \<and>
           asprintf_ok e u \<and> fst (http_setup e u ''POST'' b t) = CURLE_OK \<and>
           r = (case ekmf_perform_request e cfg (EKMF_URI_KEYS_EXPORT esc) ''POST''
                       (json_object_object_add req ''signature'' sig) (ctx_login_token ctx) emp of
                  (rc_req, response_obj, status_code, error_msg, ev_req) \<Rightarrow>
                    if rc_req \<noteq> 0
                    then \<lparr>rr_rc = (if rc_req > 0 then - EIO else rc_req),
                          rr_error_msg = error_msg, rr_key_blob = None,
                          rr_events = ev_sig @ ev_req,
                          rr_req_sess_ec_key = ctx_req_sess_ec_key_buf ctx\<rparr>
                    else
                      (case retrieve_response e lib status_code response_obj
                              (ctx_server_pubkey ctx) (ctx_req_sess_ec_key ctx)
                              (ctx_req_party_info ctx) n of
                         (rc, key_blob, ev_resp) \<Rightarrow>
                           \<lparr>rr_rc = rc, rr_error_msg = error_msg, rr_key_blob = key_blob,
                            rr_events = ev_sig @ ev_req @ ev_resp,
                            rr_req_sess_ec_key = ctx_req_sess_ec_key_buf ctx\<rparr>))"
proof -
  from run obtain rc_sig sig ev_sig where
    bs: "ekmf_build_signature e lib (ctx_identity_key ctx) req dnid pss kid = Some (rc_sig, sig, ev_sig)"
    by (auto simp: retrieve_exchange_def split: option.splits)
  have nosig: "EvHttpRequest m u b t \<notin> set ev_sig"
    using build_signature_events [OF bs] not_signing_event by blast
  have rc0: "rc_sig = 0"
    using run sent nosig by (auto simp: retrieve_exchange_def bs Let_def split: if_splits)
  have add0: "json_object_object_add_rc e ''signature'' = 0"
    using run sent nosig by (auto simp: retrieve_exchange_def bs rc0 Let_def split: if_splits)
  obtain esc where esc: "curl_easy_escape e uuid = Some esc"
    using run sent nosig
    by (cases "curl_easy_escape e uuid") (auto simp: retrieve_exchange_def bs rc0 add0 Let_def)
  have asp: "asprintf_ok e (EKMF_URI_KEYS_EXPORT esc)"
    using run sent nosig
    by (auto simp: retrieve_exchange_def bs rc0 add0 esc Let_def split: if_splits)
  let ?data = "json_object_object_add req ''signature'' sig"
  let ?p = "ekmf_perform_request e cfg (EKMF_URI_KEYS_EXPORT esc) ''POST'' ?data
              (ctx_login_token ctx) emp"
  obtain rc_req response_obj status_code error_msg ev_req where
    p: "?p = (rc_req, response_obj, status_code, error_msg, ev_req)"
    by (cases ?p) auto
  obtain rc key_blob ev_resp where
    rr: "retrieve_response e lib status_code response_obj (ctx_server_pubkey ctx)
           (ctx_req_sess_ec_key ctx) (ctx_req_party_info ctx) n = (rc, key_blob, ev_resp)"
    by (cases "retrieve_response e lib status_code response_obj (ctx_server_pubkey ctx)
           (ctx_req_sess_ec_key ctx) (ctx_req_party_info ctx) n") auto
  have noresp: "EvHttpRequest m u b t \<notin> set ev_resp"
    using retrieve_response_events [OF rr] not_response_event by blast
  have r: "r = (if rc_req \<noteq> 0
                then \<lparr>rr_rc = (if rc_req > 0 then - EIO else rc_req),
                      rr_error_msg = error_msg, rr_key_blob = None,
                      rr_events = ev_sig @ ev_req,
                      rr_req_sess_ec_key = ctx_req_sess_ec_key_buf ctx\<rparr>
                else \<lparr>rr_rc = rc, rr_error_msg = error_msg, rr_key_blob = key_blob,
                      rr_events = ev_sig @ ev_req @ ev_resp,
                      rr_req_sess_ec_key = ctx_req_sess_ec_key_buf ctx\<rparr>)"
    using run by (auto simp: retrieve_exchange_def bs rc0 add0 esc asp p rr Let_def)
  have "EvHttpRequest m u b t \<in> set ev_req"
    using sent nosig noresp by (auto simp: r split: if_splits)
  with perform_request_events [OF p]
  have ev: "m = ''POST''" "u = base_url cfg @ EKMF_URI_KEYS_EXPORT esc"
    "b = request_body e ''POST'' ?data" "t = ctx_login_token ctx"
    "asprintf_ok e u" "fst (http_setup e u ''POST'' b t) = CURLE_OK"
    by auto
  show ?thesis
    using bs rc0 esc ev r by (simp add: p rr)
qed

lemma retrieve_key_sent:
  assumes run: "ekmf_retrieve_key e config ch key_uuid nid dnid pss kid blob_len emp lib = Some r"
    and sent: "EvHttpRequest m u b t \<in> set (rr_events r)"
  shows "\<exists>cfg uuid n l ctx req.
           config = Some cfg \<and> key_uuid = Some uuid \<and> blob_len = Some n \<and> lib = Some l \<and>
           retrieve_prepare e cfg ch uuid nid l = Inr ctx \<and>
           build_request_obj e uuid (JString (ctx_req_timestamp ctx)) (ctx_req_sess_jwk_obj ctx)
             (ctx_req_party_info_obj ctx) = (0, req) \<and>
           retrieve_exchange e cfg uuid dnid pss kid n emp l ctx req = Some r"
  using assms
  by (auto simp: ekmf_retrieve_key_def json_object_new_string_def
      split: option.splits sum.splits prod.splits if_splits)

lemma get_api_error_well_formed:
  assumes "map_of kvs ''code'' = Some (JInt c)" and "map_of kvs ''message'' = Some (JString msg)"
    and "asprintf_ok e (''EKMFWeb: '' @ string_of_int (json_object_get_int (JInt c)) @ '': '' @ msg)"
  shows "ekmf_get_api_error e (JObject kvs) True =
           (0, Some (''EKMFWeb: '' @ string_of_int (json_object_get_int (JInt c)) @ '': '' @ msg))"
  using assms by (simp add: ekmf_get_api_error_def json_object_is_type_def Let_def)

lemma completed_exchange_result:
  assumes run: "ekmf_retrieve_key e config ch key_uuid nid dnid pss kid blob_len emp lib = Some r"
    and sent: "EvHttpRequest m u b t \<in> set (rr_events r)"
    and completed: "curl_easy_perform e u m b t = CurlResult CURLE_OK herr werr obj estr CURLE_OK status"
  obtains l ctx n ev_sig where
    "\<forall>x \<in> set ev_sig. signing_event x"
    and "r = (if status \<ge> 400 \<and> obj \<noteq> JNull \<and> emp \<and> fst (ekmf_get_api_error e obj True) \<noteq> 0
                then \<lparr>rr_rc = fst (ekmf_get_api_error e obj True),
                      rr_error_msg = snd (ekmf_get_api_error e obj True), rr_key_blob = None,
                      rr_events = ev_sig @ [EvHttpRequest m u b t],
                      rr_req_sess_ec_key = ctx_req_sess_ec_key_buf ctx\<rparr>
                else
                  (case retrieve_response e l status
                          (if status \<ge> 400 \<and> obj \<noteq> JNull \<and> emp then JNull else obj)
                          (ctx_server_pubkey ctx) (ctx_req_sess_ec_key ctx)
                          (ctx_req_party_info ctx) n of
                     (rc, key_blob, ev_resp) \<Rightarrow>
                       \<lparr>rr_rc = rc,
                        rr_error_msg = (if status \<ge> 400 \<and> obj \<noteq> JNull \<and> emp
                                        then snd (ekmf_get_api_error e obj True) else None),
                        rr_key_blob = key_blob,
                        rr_events = ev_sig @ [EvHttpRequest m u b t] @ ev_resp,
                        rr_req_sess_ec_key = ctx_req_sess_ec_key_buf ctx\<rparr>))"
proof -
  from retrieve_key_sent [OF run sent] obtain cfg uuid n l ctx req where
    x: "retrieve_exchange e cfg uuid dnid pss kid n emp l ctx req = Some r"
    by blast
  from retrieve_exchange_sent [OF x sent] obtain sig ev_sig esc where
    bs: "ekmf_build_signature e l (ctx_identity_key ctx) req dnid pss kid = Some (0, sig, ev_sig)"
    and m: "m = ''POST''" and u: "u = base_url cfg @ EKMF_URI_KEYS_EXPORT esc"
    and b: "b = request_body e ''POST'' (json_object_object_add req ''signature'' sig)"
    and t: "t = ctx_login_token ctx"
    and asp: "asprintf_ok e u" and hs: "fst (http_setup e u ''POST'' b t) = CURLE_OK"
    and r: "r = (case ekmf_perform_request e cfg (EKMF_URI_KEYS_EXPORT esc) ''POST''
                       (json_object_object_add req ''signature'' sig) (ctx_login_token ctx) emp of
                  (rc_req, response_obj, status_code, error_msg, ev_req) \<Rightarrow>
                    if rc_req \<noteq> 0
                    then \<lparr>rr_rc = (if rc_req > 0 then - EIO else rc_req),
                          rr_error_msg = error_msg, rr_key_blob = None,
                          rr_events = ev_sig @ ev_req,
                          rr_req_sess_ec_key = ctx_req_sess_ec_key_buf ctx\<rparr>
                    else
                      (case retrieve_response e l status_code response_obj
                              (ctx_server_pubkey ctx) (ctx_req_sess_ec_key ctx)
                              (ctx_req_party_info ctx) n of
                         (rc, key_blob, ev_resp) \<Rightarrow>
                           \<lparr>rr_rc = rc, rr_error_msg = error_msg, rr_key_blob = key_blob,
                            rr_events = ev_sig @ ev_req @ ev_resp,
                            rr_req_sess_ec_key = ctx_req_sess_ec_key_buf ctx\<rparr>))"
    by blast
  have sig_ev: "\<forall>x \<in> set ev_sig. signing_event x"
    using build_signature_events [OF bs] by blast
  have p: "ekmf_perform_request e cfg (EKMF_URI_KEYS_EXPORT esc) ''POST''
             (json_object_object_add req ''signature'' sig) (ctx_login_token ctx) emp =
     (if status \<ge> 400 \<and> obj \<noteq> JNull \<and> emp
      then (fst (ekmf_get_api_error e obj True), JNull, status,
            snd (ekmf_get_api_error e obj True), [EvHttpRequest m u b t])
      else (0, obj, status, None, [EvHttpRequest m u b t]))"
    using perform_request_completed [of e cfg "EKMF_URI_KEYS_EXPORT esc" "''POST''"
        "json_object_object_add req ''signature'' sig" "ctx_login_token ctx" herr werr obj estr
        status emp]
      asp hs completed
    by (simp add: m u b t)
  have neg: "\<not> fst (ekmf_get_api_error e obj True) > 0"
    using get_api_error_rc_nonpos [of e obj True] by simp
  have "r = (if status \<ge> 400 \<and> obj \<noteq> JNull \<and> emp \<and> fst (ekmf_get_api_error e obj True) \<noteq> 0
                then \<lparr>rr_rc = fst (ekmf_get_api_error e obj True),
                      rr_error_msg = snd (ekmf_get_api_error e obj True), rr_key_blob = None,
                      rr_events = ev_sig @ [EvHttpRequest m u b t],
                      rr_req_sess_ec_key = ctx_req_sess_ec_key_buf ctx\<rparr>
                else
                  (case retrieve_response e l status
                          (if status \<ge> 400 \<and> obj \<noteq> JNull \<and> emp then JNull else obj)
                          (ctx_server_pubkey ctx) (ctx_req_sess_ec_key ctx)
                          (ctx_req_party_info ctx) n of
                     (rc, key_blob, ev_resp) \<Rightarrow>
                       \<lparr>rr_rc = rc,
                        rr_error_msg = (if status \<ge> 400 \<and> obj \<noteq> JNull \<and> emp
                                        then snd (ekmf_get_api_error e obj True) else None),
                        rr_key_blob = key_blob,
                        rr_events = ev_sig @ [EvHttpRequest m u b t] @ ev_resp,
                        rr_req_sess_ec_key = ctx_req_sess_ec_key_buf ctx\<rparr>))"
    using neg by (auto simp: r p split: prod.splits)
  with sig_ev show ?thesis by (rule that)
qed

lemma signing_not_response: "signing_event x \<Longrightarrow> \<not> response_event x"
  by (cases x) (simp_all add: signing_event_def response_event_def)

text \<open>
  C1, as amended. Take a run of \<^verbatim>\<open>ekmf_retrieve_key\<close> whose request was sent and whose
  transfer completed with some status and response body. For a status other than 200
  the function returns without verifying a signature, importing or unwrapping anything,
  and writes no key. The code returned is \<^verbatim>\<open>-EBADMSG\<close> for 400, \<^verbatim>\<open>-EACCES\<close> for 401,
  \<^verbatim>\<open>-EPERM\<close> for 403, \<^verbatim>\<open>-ENOENT\<close> for 404 and \<^verbatim>\<open>-EIO\<close> for any other status, except when
  the status is at least 400, the body is a JSON value, the caller asked for an error
  message and \<^verbatim>\<open>_ekmf_get_api_error\<close> fails on the body: then its code is returned. For
  a status of at least 400 whose body is an object with an integer \<^verbatim>\<open>code\<close> and a string
  \<^verbatim>\<open>message\<close>, with the message text allocated, the mapped code is returned and the error
  message is \<^verbatim>\<open>EKMFWeb: <code>: <message>\<close>. For status 200 the code and the key are those of
  the response handling.
\<close>

theorem http_status_decides_result:
  assumes run: "ekmf_retrieve_key e config ch key_uuid nid dnid pss kid blob_len emp lib = Some r"
    and sent: "EvHttpRequest m u b t \<in> set (rr_events r)"
    and completed: "curl_easy_perform e u m b t = CurlResult CURLE_OK herr werr obj estr CURLE_OK status"
  shows "(status \<noteq> 200 \<longrightarrow>
            rr_key_blob r = None \<and> (\<forall>x \<in> set (rr_events r). \<not> response_event x)) \<and>
         (status \<noteq> 200 \<and>
          \<not> (status \<ge> 400 \<and> obj \<noteq> JNull \<and> emp \<and> fst (ekmf_get_api_error e obj True) \<noteq> 0) \<longrightarrow>
            rr_rc r =
              (if status = 400 then - EBADMSG else if status = 401 then - EACCES
               else if status = 403 then - EPERM else if status = 404 then - ENOENT else - EIO)) \<and>
         (status \<ge> 400 \<and> obj \<noteq> JNull \<and> emp \<and> fst (ekmf_get_api_error e obj True) \<noteq> 0 \<longrightarrow>
            rr_rc r = fst (ekmf_get_api_error e obj True)) \<and>
         (status \<ge> 400 \<and> obj \<noteq> JNull \<and> emp \<longrightarrow>
            rr_error_msg r = snd (ekmf_get_api_error e obj True)) \<and>
         (\<forall>kvs c msg.
            status \<ge> 400 \<and> emp \<and> obj = JObject kvs \<and>
            map_of kvs ''code'' = Some (JInt c) \<and> map_of kvs ''message'' = Some (JString msg) \<and>
            asprintf_ok e (''EKMFWeb: '' @ string_of_int (json_object_get_int (JInt c)) @ '': '' @ msg) \<longrightarrow>
            rr_rc r =
              (if status = 400 then - EBADMSG else if status = 401 then - EACCES
               else if status = 403 then - EPERM else if status = 404 then - ENOENT else - EIO) \<and>
            rr_error_msg r =
              Some (''EKMFWeb: '' @ string_of_int (json_object_get_int (JInt c)) @ '': '' @ msg)) \<and>
         (status = 200 \<longrightarrow>
            (\<exists>l pk key party_info n.
               rr_rc r = fst (retrieve_response e l 200 obj pk key party_info n) \<and>
               rr_key_blob r = fst (snd (retrieve_response e l 200 obj pk key party_info n))))"
proof -
  let ?api = "ekmf_get_api_error e obj True"
  let ?c = "status \<ge> 400 \<and> obj \<noteq> JNull \<and> emp"
  from run sent completed obtain l ctx n ev_sig where
    sig: "\<forall>x \<in> set ev_sig. signing_event x"
    and r: "r = (if status \<ge> 400 \<and> obj \<noteq> JNull \<and> emp \<and> fst ?api \<noteq> 0
                then \<lparr>rr_rc = fst ?api, rr_error_msg = snd ?api, rr_key_blob = None,
                      rr_events = ev_sig @ [EvHttpRequest m u b t],
                      rr_req_sess_ec_key = ctx_req_sess_ec_key_buf ctx\<rparr>
                else
                  (case retrieve_response e l status (if ?c then JNull else obj)
                          (ctx_server_pubkey ctx) (ctx_req_sess_ec_key ctx)
                          (ctx_req_party_info ctx) n of
                     (rc, key_blob, ev_resp) \<Rightarrow>
                       \<lparr>rr_rc = rc, rr_error_msg = (if ?c then snd ?api else None),
                        rr_key_blob = key_blob,
                        rr_events = ev_sig @ [EvHttpRequest m u b t] @ ev_resp,
                        rr_req_sess_ec_key = ctx_req_sess_ec_key_buf ctx\<rparr>))"
    by (rule completed_exchange_result)
  have nr: "\<forall>x \<in> set ev_sig. \<not> response_event x"
    using sig signing_not_response by blast
  have p1: "status \<noteq> 200 \<longrightarrow>
            rr_key_blob r = None \<and> (\<forall>x \<in> set (rr_events r). \<not> response_event x)"
    using nr by (auto simp: r retrieve_response_not_200)
  have p2: "status \<noteq> 200 \<and> \<not> (status \<ge> 400 \<and> obj \<noteq> JNull \<and> emp \<and> fst ?api \<noteq> 0) \<longrightarrow>
            rr_rc r =
              (if status = 400 then - EBADMSG else if status = 401 then - EACCES
               else if status = 403 then - EPERM else if status = 404 then - ENOENT else - EIO)"
    by (auto simp: r retrieve_response_not_200)
  have p3: "status \<ge> 400 \<and> obj \<noteq> JNull \<and> emp \<and> fst ?api \<noteq> 0 \<longrightarrow> rr_rc r = fst ?api"
    by (simp add: r)
  have p4: "?c \<longrightarrow> rr_error_msg r = snd ?api"
    by (auto simp: r split: prod.splits)
  have p5: "rr_rc r =
              (if status = 400 then - EBADMSG else if status = 401 then - EACCES
               else if status = 403 then - EPERM else if status = 404 then - ENOENT else - EIO) \<and>
            rr_error_msg r =
              Some (''EKMFWeb: '' @ string_of_int (json_object_get_int (JInt c)) @ '': '' @ msg)"
    if h: "status \<ge> 400 \<and> emp \<and> obj = JObject kvs \<and>
            map_of kvs ''code'' = Some (JInt c) \<and> map_of kvs ''message'' = Some (JString msg) \<and>
            asprintf_ok e (''EKMFWeb: '' @ string_of_int (json_object_get_int (JInt c)) @ '': '' @ msg)"
    for kvs c msg
  proof -
    from h have api: "?api =
        (0, Some (''EKMFWeb: '' @ string_of_int (json_object_get_int (JInt c)) @ '': '' @ msg))"
      using get_api_error_well_formed [of kvs c msg e] by simp
    from h have c: "?c" and s: "status \<noteq> 200" by auto
    from p2 p4 c s api show ?thesis by simp
  qed
  have p6: "status = 200 \<longrightarrow>
            (\<exists>l pk key party_info n.
               rr_rc r = fst (retrieve_response e l 200 obj pk key party_info n) \<and>
               rr_key_blob r = fst (snd (retrieve_response e l 200 obj pk key party_info n)))"
  proof
    assume s: "status = 200"
    have "rr_rc r = fst (retrieve_response e l 200 obj (ctx_server_pubkey ctx)
              (ctx_req_sess_ec_key ctx) (ctx_req_party_info ctx) n) \<and>
          rr_key_blob r = fst (snd (retrieve_response e l 200 obj (ctx_server_pubkey ctx)
              (ctx_req_sess_ec_key ctx) (ctx_req_party_info ctx) n))"
      by (simp add: r s split: prod.splits)
    then show "\<exists>l pk key party_info n.
               rr_rc r = fst (retrieve_response e l 200 obj pk key party_info n) \<and>
               rr_key_blob r = fst (snd (retrieve_response e l 200 obj pk key party_info n))"
      by blast
  qed
  show ?thesis
    apply (intro conjI)
         apply (rule p1)
        apply (rule p2)
       apply (rule p3)
      apply (rule p4)
     apply (intro allI impI)
     apply (erule p5)
    apply (rule p6)
    done
qed

subsection \<open>The sample request\<close>

lemma sample_prepare:
  "retrieve_prepare (env_with_response cr) config_ok None ''key-1'' 0 EKMF_EXT_LIB_CCA = Inr ctx_ok"
  by (simp add: retrieve_prepare_def ekmf_check_login_token_def read_login_token_def
      check_token_claims_def c_string_def json_object_is_type_def ekmf_build_party_info_def
      ekmf_get_curl_handle_def buf_write_def ctx_ok_def SHA512_DIGEST_LENGTH_def nid_defs
      env_with_response_def env_ok_def config_ok_def Let_def)

lemma sample_request:
  "build_request_obj (env_with_response cr) ''key-1'' (JString ''2020-06-01T12:00:00Z'')
     (JObject [(''kty'', JString ''EC'')]) (JString ''cmVx'') = (0, request_ok)"
  by (simp add: build_request_obj_def json_object_new_object_def json_object_new_string_def
      request_ok_def env_with_response_def env_ok_def)

lemma sample_signature:
  "ekmf_build_signature (env_with_response cr) EKMF_EXT_LIB_CCA [1, 2, 3] request_ok 0 False
     (Some ''kid'') =
   Some (0, JString ''ES512.sig'',
         [EvSetupSignContext EVP_PKEY_EC NID_sha512, EvCreateJws ''ES512'' (json_plain request_ok)])"
  by (simp add: ekmf_build_signature_def get_identity_pkey_def select_jws_alg_def
      json_object_new_string_def env_with_response_def env_ok_def nid_defs Let_def)

lemma sample_exchange:
  "retrieve_sample cr =
     (case ekmf_perform_request (env_with_response cr) config_ok (EKMF_URI_KEYS_EXPORT ''key-1'')
             ''POST'' signed_request_ok (Some ''h.p.s'') True of
        (rc_req, response_obj, status_code, error_msg, ev_req) \<Rightarrow>
          Some (if rc_req \<noteq> 0
           then \<lparr>rr_rc = (if rc_req > 0 then - EIO else rc_req),
                 rr_error_msg = error_msg, rr_key_blob = None,
                 rr_events = [EvSetupSignContext EVP_PKEY_EC NID_sha512,
                              EvCreateJws ''ES512'' (json_plain request_ok)] @ ev_req,
                 rr_req_sess_ec_key = [17, 34, 51, 255]\<rparr>
           else
             (case retrieve_response (env_with_response cr) EKMF_EXT_LIB_CCA status_code
                     response_obj (Some (EVP_PKEY EVP_PKEY_RSA 0 [7])) [17, 34, 51] [5, 6] 64 of
                (rc, key_blob, ev_resp) \<Rightarrow>
                  \<lparr>rr_rc = rc, rr_error_msg = error_msg, rr_key_blob = key_blob,
                   rr_events = [EvSetupSignContext EVP_PKEY_EC NID_sha512,
                                EvCreateJws ''ES512'' (json_plain request_ok)] @ ev_req @ ev_resp,
                   rr_req_sess_ec_key = [17, 34, 51, 255]\<rparr>)))"
proof -
  have esc: "curl_easy_escape (env_with_response cr) ''key-1'' = Some ''key-1''"
    and asp: "asprintf_ok (env_with_response cr) x"
    and add: "json_object_object_add_rc (env_with_response cr) k = 0" for x k
    by (simp_all add: env_with_response_def env_ok_def)
  have ctx: "ctx_identity_key ctx_ok = [1, 2, 3]" "ctx_req_timestamp ctx_ok = ''2020-06-01T12:00:00Z''"
    "ctx_req_sess_jwk_obj ctx_ok = JObject [(''kty'', JString ''EC'')]"
    "ctx_req_party_info_obj ctx_ok = JString ''cmVx''" "ctx_login_token ctx_ok = Some ''h.p.s''"
    "ctx_server_pubkey ctx_ok = Some (EVP_PKEY EVP_PKEY_RSA 0 [7])"
    "ctx_req_sess_ec_key ctx_ok = [17, 34, 51]" "ctx_req_party_info ctx_ok = [5, 6]"
    "ctx_req_sess_ec_key_buf ctx_ok = [17, 34, 51, 255]"
    by (simp_all add: ctx_ok_def)
  show ?thesis
    by (simp add: retrieve_sample_def ekmf_retrieve_key_def sample_prepare
        json_object_new_string_def ctx sample_request retrieve_exchange_def sample_signature
        esc asp add signed_request_ok_def Let_def split: prod.splits)
qed

lemma sample_perform:
  "ekmf_perform_request (env_with_response (CurlResult 0 False False obj [] 0 status)) config_ok
     (EKMF_URI_KEYS_EXPORT ''key-1'') ''POST'' signed_request_ok (Some ''h.p.s'') True =
     (if status \<ge> 400 \<and> obj \<noteq> JNull
      then (fst (ekmf_get_api_error (env_with_response (CurlResult 0 False False obj [] 0 status)) obj True),
            JNull, status,
            snd (ekmf_get_api_error (env_with_response (CurlResult 0 False False obj [] 0 status)) obj True),
            [EvHttpRequest ''POST'' ''https://ekmf/api/v1/keys/key-1/export''
               (Some (json_plain signed_request_ok)) (Some ''h.p.s'')])
      else (0, obj, status, None,
            [EvHttpRequest ''POST'' ''https://ekmf/api/v1/keys/key-1/export''
               (Some (json_plain signed_request_ok)) (Some ''h.p.s'')]))"
proof -
  let ?e = "env_with_response (CurlResult 0 False False obj [] 0 status)"
  have u: "base_url config_ok @ EKMF_URI_KEYS_EXPORT ''key-1'' = ''https://ekmf/api/v1/keys/key-1/export''"
    by (simp add: config_ok_def EKMF_URI_KEYS_EXPORT_def)
  have b: "request_body ?e ''POST'' signed_request_ok = Some (json_plain signed_request_ok)"
    by (simp add: request_body_def signed_request_ok_def request_ok_def env_with_response_def env_ok_def)
  have asp: "asprintf_ok ?e x" for x by (simp add: env_with_response_def env_ok_def)
  have hs: "http_setup ?e x1 x2 x3 x4 = (0, [])" for x1 x2 x3 x4
    by (simp add: env_with_response_def env_ok_def)
  have cp: "curl_easy_perform ?e x1 x2 x3 x4 = CurlResult CURLE_OK False False obj [] CURLE_OK status"
    for x1 x2 x3 x4
    by (simp add: env_with_response_def CURLE_OK_def)
  show ?thesis
    using perform_request_completed [of ?e config_ok "EKMF_URI_KEYS_EXPORT ''key-1''" "''POST''"
        signed_request_ok "Some ''h.p.s''" False False obj "[]" status True]
    by (simp only: u b asp hs cp CURLE_OK_def fst_conv simp_thms)
qed

lemma sample_forbidden:
  "retrieve_sample cr_forbidden =
     Some \<lparr>rr_rc = - EPERM, rr_error_msg = Some ''EKMFWeb: 7: no permission'',
           rr_key_blob = None,
           rr_events = [EvSetupSignContext EVP_PKEY_EC NID_sha512,
                        EvCreateJws ''ES512'' (json_plain request_ok),
                        EvHttpRequest ''POST'' ''https://ekmf/api/v1/keys/key-1/export''
                          (Some (json_plain signed_request_ok)) (Some ''h.p.s'')],
           rr_req_sess_ec_key = [17, 34, 51, 255]\<rparr>"
proof -
  have api: "ekmf_get_api_error (env_with_response cr_forbidden)
      (JObject [(''code'', JInt 7), (''message'', JString ''no permission'')]) True =
      (0, Some ''EKMFWeb: 7: no permission'')"
    by (simp add: ekmf_get_api_error_def json_object_is_type_def json_object_get_int_def
        string_of_int_def string_of_nat.simps env_with_response_def env_ok_def Let_def)
  show ?thesis
    unfolding sample_exchange
    by (simp add: cr_forbidden_def sample_perform api [unfolded cr_forbidden_def]
        retrieve_response_not_200)
qed

theorem http_status_decides_result_witness:
  "map_option rr_rc (retrieve_sample cr_forbidden) = Some (- EPERM) \<and>
   map_option rr_error_msg (retrieve_sample cr_forbidden) =
     Some (Some ''EKMFWeb: 7: no permission'') \<and>
   map_option rr_key_blob (retrieve_sample cr_forbidden) = Some None \<and>
   map_option (\<lambda>r. filter response_event (rr_events r)) (retrieve_sample cr_forbidden) = Some []"
proof -
  let ?e = "env_with_response cr_forbidden"
  let ?r = "\<lparr>rr_rc = - EPERM, rr_error_msg = Some ''EKMFWeb: 7: no permission'',
           rr_key_blob = None,
           rr_events = [EvSetupSignContext EVP_PKEY_EC NID_sha512,
                        EvCreateJws ''ES512'' (json_plain request_ok),
                        EvHttpRequest ''POST'' ''https://ekmf/api/v1/keys/key-1/export''
                          (Some (json_plain signed_request_ok)) (Some ''h.p.s'')],
           rr_req_sess_ec_key = [17, 34, 51, 255]\<rparr>"
  have run: "ekmf_retrieve_key ?e (Some config_ok) None (Some ''key-1'') 0 0 False
       (Some ''kid'') (Some 64) True (Some EKMF_EXT_LIB_CCA) = Some ?r"
    using sample_forbidden by (simp add: retrieve_sample_def)
  have sent: "EvHttpRequest ''POST'' ''https://ekmf/api/v1/keys/key-1/export''
      (Some (json_plain signed_request_ok)) (Some ''h.p.s'') \<in> set (rr_events ?r)"
    by simp
  have completed: "curl_easy_perform ?e ''https://ekmf/api/v1/keys/key-1/export'' ''POST''
      (Some (json_plain signed_request_ok)) (Some ''h.p.s'') =
      CurlResult CURLE_OK False False
        (JObject [(''code'', JInt 7), (''message'', JString ''no permission'')]) [] CURLE_OK 403"
    by (simp add: env_with_response_def cr_forbidden_def CURLE_OK_def)
  have asp: "asprintf_ok ?e x" for x by (simp add: env_with_response_def env_ok_def)
  have msg_text: "''EKMFWeb: '' @ string_of_int (json_object_get_int (JInt 7)) @ '': '' @ ''no permission'' =
      ''EKMFWeb: 7: no permission''"
    by (simp add: json_object_get_int_def string_of_int_def string_of_nat.simps)
  from http_status_decides_result [OF run sent completed]
  have "rr_key_blob ?r = None \<and> (\<forall>x \<in> set (rr_events ?r). \<not> response_event x)"
    and "rr_rc ?r = - EPERM \<and> rr_error_msg ?r = Some ''EKMFWeb: 7: no permission''"
    using asp msg_text by (simp_all add: errno_defs)
  then show ?thesis
    by (simp add: sample_forbidden response_event_def)
qed

text \<open>
  C1 as stated fails for a completed exchange with status 403 whose body is a JSON
  object without \<^verbatim>\<open>code\<close> and \<^verbatim>\<open>message\<close>: the function returns \<^verbatim>\<open>-EBADMSG\<close>, not \<^verbatim>\<open>-EPERM\<close>.
\<close>

theorem error_body_overrides_status_counterexample:
  "cr_rc cr_forbidden_plain = 0 \<and> cr_getinfo_rc cr_forbidden_plain = 0 \<and>
   cr_status_code cr_forbidden_plain = 403 \<and>
   map_option rr_rc (retrieve_sample cr_forbidden_plain) = Some (- EBADMSG) \<and>
   - EBADMSG \<noteq> - EPERM"
proof -
  have api: "ekmf_get_api_error (env_with_response cr_forbidden_plain)
      (JObject [(''error'', JString ''no permission'')]) True = (- EBADMSG, None)"
    by (simp add: ekmf_get_api_error_def json_object_is_type_def)
  have "retrieve_sample cr_forbidden_plain =
     Some \<lparr>rr_rc = - EBADMSG, rr_error_msg = None, rr_key_blob = None,
           rr_events = [EvSetupSignContext EVP_PKEY_EC NID_sha512,
                        EvCreateJws ''ES512'' (json_plain request_ok),
                        EvHttpRequest ''POST'' ''https://ekmf/api/v1/keys/key-1/export''
                          (Some (json_plain signed_request_ok)) (Some ''h.p.s'')],
           rr_req_sess_ec_key = [17, 34, 51, 255]\<rparr>"
    unfolding sample_exchange
    by (simp add: cr_forbidden_plain_def sample_perform api [unfolded cr_forbidden_plain_def]
        errno_defs)
  then show ?thesis by (simp add: cr_forbidden_plain_def errno_defs)
qed

section \<open>The buffers of the session key and of the transport key\<close>

text \<open>
  \<^verbatim>\<open>ekmf_retrieve_key\<close> holds the generated session key in the local array
  \<^verbatim>\<open>req_sess_ec_key\<close>, \<^verbatim>\<open>_ekmf_import_key\<close> holds the derived importer key in the local
  array \<^verbatim>\<open>transport_key\<close>. The only writes to either array are the ones of
  \<^verbatim>\<open>cca_generate_ecc_key_pair\<close> and \<^verbatim>\<open>cca_ec_dh_derive_importer\<close>: no statement of the
  file clears them, neither at \<^verbatim>\<open>out:\<close> nor on any earlier return.
\<close>

lemma retrieve_prepare_left:
  assumes "retrieve_prepare e cfg ch uuid nid lib = Inl (rc, buf)"
  shows "rc \<noteq> 0 \<and>
         (buf = stack_req_sess_ec_key e \<or>
          buf = buf_write (stack_req_sess_ec_key e)
                  (snd (cca_generate_ecc_key_pair e
                          (if nid \<noteq> 0 then nid else DEFAULT_SESSION_EC_KEY_CURVE))))"
  using assms
  by (auto simp: retrieve_prepare_def Let_def errno_defs
      split: prod.splits if_splits ekmf_ext_lib_type.splits option.splits)

lemma build_party_info_ok:
  assumes "ekmf_build_party_info e uuid ts d n = (0, party_info, obj)"
  shows "party_info = EVP_Digest e (if d \<noteq> 0 then d else NID_sha256) (uuid @ ts) \<and>
         obj = json_object_new_base64url e party_info"
  using assms
  by (auto simp: ekmf_build_party_info_def Let_def errno_defs split: option.splits if_splits)

lemma retrieve_prepare_right:
  assumes "retrieve_prepare e cfg ch uuid nid lib = Inr ctx"
  shows "ctx_req_sess_ec_key ctx =
           snd (cca_generate_ecc_key_pair e
                  (if nid \<noteq> 0 then nid else DEFAULT_SESSION_EC_KEY_CURVE)) \<and>
         ctx_req_sess_ec_key_buf ctx = buf_write (stack_req_sess_ec_key e) (ctx_req_sess_ec_key ctx) \<and>
         ctx_req_sess_jwk_obj ctx =
           snd (cca_get_ecc_pub_key_as_json_web_key e (ctx_req_sess_ec_key ctx)) \<and>
         get_json_timestamp e = Some (ctx_req_timestamp ctx) \<and>
         ctx_req_party_info ctx = EVP_Digest e NID_sha256 (uuid @ ctx_req_timestamp ctx) \<and>
         ctx_req_party_info_obj ctx = json_object_new_base64url e (ctx_req_party_info ctx)"
proof -
  from assms obtain tok pk idk key jwk ts party_info obj where
    ctx: "ctx = RetrieveCtx tok pk idk key (buf_write (stack_req_sess_ec_key e) key) jwk ts
            party_info obj"
    and gen: "cca_generate_ecc_key_pair e
                (if nid \<noteq> 0 then nid else DEFAULT_SESSION_EC_KEY_CURVE) = (0, key)"
    and j: "cca_get_ecc_pub_key_as_json_web_key e key = (0, jwk)"
    and t: "get_json_timestamp e = Some ts"
    and p: "ekmf_build_party_info e uuid ts NID_sha256 SHA512_DIGEST_LENGTH = (0, party_info, obj)"
    by (auto simp: retrieve_prepare_def Let_def
        split: prod.splits if_splits ekmf_ext_lib_type.splits option.splits)
  from build_party_info_ok [OF p] ctx gen j t show ?thesis
    by (simp add: nid_defs)
qed

lemma retrieve_exchange_buf:
  assumes "retrieve_exchange e cfg uuid dnid pss kid n emp lib ctx req = Some r"
  shows "rr_req_sess_ec_key r = ctx_req_sess_ec_key_buf ctx"
  using assms
  by (auto simp: retrieve_exchange_def Let_def split: option.splits prod.splits if_splits)

lemma retrieve_key_buffer:
  assumes "ekmf_retrieve_key e config ch key_uuid nid dnid pss kid blob_len emp lib = Some r"
  shows "(rr_req_sess_ec_key r = stack_req_sess_ec_key e \<and> rr_rc r \<noteq> 0) \<or>
         rr_req_sess_ec_key r =
           buf_write (stack_req_sess_ec_key e)
             (snd (cca_generate_ecc_key_pair e
                     (if nid \<noteq> 0 then nid else DEFAULT_SESSION_EC_KEY_CURVE)))"
proof (cases "\<exists>cfg uuid n l. config = Some cfg \<and> key_uuid = Some uuid \<and> blob_len = Some n \<and> lib = Some l")
  case False
  with assms have "r = \<lparr>rr_rc = - EINVAL, rr_error_msg = None, rr_key_blob = None,
      rr_events = [], rr_req_sess_ec_key = stack_req_sess_ec_key e\<rparr>"
    by (auto simp: ekmf_retrieve_key_def split: option.splits)
  then show ?thesis by (simp add: EINVAL_def)
next
  case True
  then obtain cfg uuid n l where
    a: "config = Some cfg" "key_uuid = Some uuid" "blob_len = Some n" "lib = Some l"
    by blast
  show ?thesis
  proof (cases "retrieve_prepare e cfg ch uuid nid l")
    case (Inl p)
    obtain rc buf where p: "p = (rc, buf)" by (cases p)
    from assms have "r = \<lparr>rr_rc = rc, rr_error_msg = None, rr_key_blob = None,
        rr_events = [], rr_req_sess_ec_key = buf\<rparr>"
      by (simp add: ekmf_retrieve_key_def a Inl p)
    with retrieve_prepare_left [OF Inl [unfolded p]] show ?thesis by auto
  next
    case (Inr ctx)
    note c = retrieve_prepare_right [OF Inr]
    obtain rc req where b: "build_request_obj e uuid (json_object_new_string (ctx_req_timestamp ctx))
        (ctx_req_sess_jwk_obj ctx) (ctx_req_party_info_obj ctx) = (rc, req)"
      by (cases "build_request_obj e uuid (json_object_new_string (ctx_req_timestamp ctx))
        (ctx_req_sess_jwk_obj ctx) (ctx_req_party_info_obj ctx)")
    show ?thesis
    proof (cases "rc = 0")
      case True
      with assms have "retrieve_exchange e cfg uuid dnid pss kid n emp l ctx req = Some r"
        by (simp add: ekmf_retrieve_key_def a Inr b)
      from retrieve_exchange_buf [OF this] c show ?thesis by simp
    next
      case False
      with assms have "rr_req_sess_ec_key r = ctx_req_sess_ec_key_buf ctx"
        by (auto simp: ekmf_retrieve_key_def a Inr b)
      with c show ?thesis by simp
    qed
  qed
qed

lemma import_key_buffer:
  assumes "ekmf_import_key e lib req_key req_pi resp_pi sess_jwk exp_jwk n = (rc, blob, ev, tbuf)"
  shows "(tbuf = stack_transport_key e \<and> rc \<noteq> 0) \<or>
         tbuf = buf_write (stack_transport_key e)
                  (snd (cca_ec_dh_derive_importer e req_key
                          (snd (cca_import_key_from_json_web_key e sess_jwk (MAX_KEY_BLOB_SIZE e)))
                          (req_pi @ resp_pi)))"
  using assms
  by (auto simp: ekmf_import_key_def Let_def errno_defs
      split: if_splits prod.splits ekmf_ext_lib_type.splits)

lemma buf_write_keeps: "b \<in> set out \<Longrightarrow> b \<in> set (buf_write buf out)"
  by (simp add: buf_write_def)

text \<open>
  C7, as amended. Neither function zeroes its buffer. Whenever \<^verbatim>\<open>ekmf_retrieve_key\<close>
  returns, \<^verbatim>\<open>req_sess_ec_key\<close> holds either what the array held on entry (and then the
  return code is not zero) or that content overwritten from the start by the key blob that
  \<^verbatim>\<open>cca_generate_ecc_key_pair\<close> produced; after a successful retrieval every byte of the
  generated key blob is still in the array. The same holds for \<^verbatim>\<open>transport_key\<close> of
  \<^verbatim>\<open>_ekmf_import_key\<close> and the key blob that \<^verbatim>\<open>cca_ec_dh_derive_importer\<close> produced.
\<close>

theorem sensitive_buffers_left_as_written:
  "(\<forall>r. ekmf_retrieve_key e config ch key_uuid nid dnid pss kid blob_len emp lib = Some r \<longrightarrow>
      ((rr_req_sess_ec_key r = stack_req_sess_ec_key e \<and> rr_rc r \<noteq> 0) \<or>
       rr_req_sess_ec_key r =
         buf_write (stack_req_sess_ec_key e)
           (snd (cca_generate_ecc_key_pair e
                   (if nid \<noteq> 0 then nid else DEFAULT_SESSION_EC_KEY_CURVE)))) \<and>
      (rr_rc r = 0 \<longrightarrow>
         (\<forall>b \<in> set (snd (cca_generate_ecc_key_pair e
                            (if nid \<noteq> 0 then nid else DEFAULT_SESSION_EC_KEY_CURVE))).
            b \<in> set (rr_req_sess_ec_key r)))) \<and>
   (\<forall>rc blob ev tbuf.
      ekmf_import_key e l req_key req_pi resp_pi sess_jwk exp_jwk n = (rc, blob, ev, tbuf) \<longrightarrow>
      ((tbuf = stack_transport_key e \<and> rc \<noteq> 0) \<or>
       tbuf = buf_write (stack_transport_key e)
                (snd (cca_ec_dh_derive_importer e req_key
                        (snd (cca_import_key_from_json_web_key e sess_jwk (MAX_KEY_BLOB_SIZE e)))
                        (req_pi @ resp_pi)))) \<and>
      (rc = 0 \<longrightarrow>
         (\<forall>b \<in> set (snd (cca_ec_dh_derive_importer e req_key
                        (snd (cca_import_key_from_json_web_key e sess_jwk (MAX_KEY_BLOB_SIZE e)))
                        (req_pi @ resp_pi))).
            b \<in> set tbuf)))"
proof (intro conjI allI impI)
  fix r
  assume run: "ekmf_retrieve_key e config ch key_uuid nid dnid pss kid blob_len emp lib = Some r"
  note b = retrieve_key_buffer [OF run]
  from b show "(rr_req_sess_ec_key r = stack_req_sess_ec_key e \<and> rr_rc r \<noteq> 0) \<or>
       rr_req_sess_ec_key r =
         buf_write (stack_req_sess_ec_key e)
           (snd (cca_generate_ecc_key_pair e
                   (if nid \<noteq> 0 then nid else DEFAULT_SESSION_EC_KEY_CURVE)))" .
  assume "rr_rc r = 0"
  with b show "\<forall>b \<in> set (snd (cca_generate_ecc_key_pair e
                            (if nid \<noteq> 0 then nid else DEFAULT_SESSION_EC_KEY_CURVE))).
            b \<in> set (rr_req_sess_ec_key r)"
    by (auto simp: buf_write_keeps)
next
  fix rc blob ev tbuf
  assume run: "ekmf_import_key e l req_key req_pi resp_pi sess_jwk exp_jwk n = (rc, blob, ev, tbuf)"
  note b = import_key_buffer [OF run]
  from b show "(tbuf = stack_transport_key e \<and> rc \<noteq> 0) \<or>
       tbuf = buf_write (stack_transport_key e)
                (snd (cca_ec_dh_derive_importer e req_key
                        (snd (cca_import_key_from_json_web_key e sess_jwk (MAX_KEY_BLOB_SIZE e)))
                        (req_pi @ resp_pi)))" .
  assume "rc = 0"
  with b show "\<forall>b \<in> set (snd (cca_ec_dh_derive_importer e req_key
                        (snd (cca_import_key_from_json_web_key e sess_jwk (MAX_KEY_BLOB_SIZE e)))
                        (req_pi @ resp_pi))).
            b \<in> set tbuf"
    by (auto simp: buf_write_keeps)
qed

subsection \<open>The sample retrieval, completed\<close>

lemma sample_response:
  "retrieve_response (env_with_response cr) EKMF_EXT_LIB_CCA 200 response_ok
     (Some (EVP_PKEY EVP_PKEY_RSA 0 [7])) [17, 34, 51] [5, 6] 64 =
     (0, Some [1, 2, 3, 4],
      [EvVerifyJws (Some ''srv.sig'') (json_plain (json_object_object_del response_ok ''signature''))
         (Some (EVP_PKEY EVP_PKEY_RSA 0 [7])),
       EvImportJwk (JObject [(''kty'', JString ''EC'')]),
       EvDeriveImporter [17, 34, 51] [4, 5] [5, 6, 9, 8],
       EvImportJwk (JObject [(''kty'', JString ''oct'')]),
       EvImportExternalKey [4, 5] [170, 187]])"
  by (simp add: retrieve_response_def ekmf_verify_signature_def ekmf_import_key_def
      json_object_is_type_def response_ok_def buf_write_def env_with_response_def env_ok_def
      Let_def)

lemma sample_ok:
  "retrieve_sample cr_ok =
     Some \<lparr>rr_rc = 0, rr_error_msg = None, rr_key_blob = Some [1, 2, 3, 4],
           rr_events =
             [EvSetupSignContext EVP_PKEY_EC NID_sha512,
              EvCreateJws ''ES512'' (json_plain request_ok),
              EvHttpRequest ''POST'' ''https://ekmf/api/v1/keys/key-1/export''
                (Some (json_plain signed_request_ok)) (Some ''h.p.s''),
              EvVerifyJws (Some ''srv.sig'')
                (json_plain (json_object_object_del response_ok ''signature''))
                (Some (EVP_PKEY EVP_PKEY_RSA 0 [7])),
              EvImportJwk (JObject [(''kty'', JString ''EC'')]),
              EvDeriveImporter [17, 34, 51] [4, 5] [5, 6, 9, 8],
              EvImportJwk (JObject [(''kty'', JString ''oct'')]),
              EvImportExternalKey [4, 5] [170, 187]],
           rr_req_sess_ec_key = [17, 34, 51, 255]\<rparr>"
  unfolding sample_exchange
  by (simp add: cr_ok_def sample_perform sample_response)

lemma sample_import:
  "ekmf_import_key (env_with_response cr_ok) EKMF_EXT_LIB_CCA [17, 34, 51] [5, 6] [9, 8]
     (JObject [(''kty'', JString ''EC'')]) (JObject [(''kty'', JString ''oct'')]) 64 =
     (0, Some [1, 2, 3, 4],
      [EvImportJwk (JObject [(''kty'', JString ''EC'')]),
       EvDeriveImporter [17, 34, 51] [4, 5] [5, 6, 9, 8],
       EvImportJwk (JObject [(''kty'', JString ''oct'')]),
       EvImportExternalKey [4, 5] [170, 187]],
      [170, 187, 255])"
  by (simp add: ekmf_import_key_def env_with_response_def env_ok_def buf_write_def)

theorem sensitive_buffers_left_as_written_witness:
  "map_option rr_rc (retrieve_sample cr_ok) = Some 0 \<and>
   map_option rr_req_sess_ec_key (retrieve_sample cr_ok) =
     Some (buf_write [255, 255, 255, 255] [17, 34, 51]) \<and>
   snd (snd (snd (ekmf_import_key (env_with_response cr_ok) EKMF_EXT_LIB_CCA [17, 34, 51] [5, 6] [9, 8]
     (JObject [(''kty'', JString ''EC'')]) (JObject [(''kty'', JString ''oct'')]) 64))) =
     buf_write [255, 255, 255] [170, 187]"
proof -
  let ?e = "env_with_response cr_ok"
  let ?r = "\<lparr>rr_rc = 0, rr_error_msg = None, rr_key_blob = Some [1, 2, 3, 4],
           rr_events =
             [EvSetupSignContext EVP_PKEY_EC NID_sha512,
              EvCreateJws ''ES512'' (json_plain request_ok),
              EvHttpRequest ''POST'' ''https://ekmf/api/v1/keys/key-1/export''
                (Some (json_plain signed_request_ok)) (Some ''h.p.s''),
              EvVerifyJws (Some ''srv.sig'')
                (json_plain (json_object_object_del response_ok ''signature''))
                (Some (EVP_PKEY EVP_PKEY_RSA 0 [7])),
              EvImportJwk (JObject [(''kty'', JString ''EC'')]),
              EvDeriveImporter [17, 34, 51] [4, 5] [5, 6, 9, 8],
              EvImportJwk (JObject [(''kty'', JString ''oct'')]),
              EvImportExternalKey [4, 5] [170, 187]],
           rr_req_sess_ec_key = [17, 34, 51, 255]\<rparr>"
  have run: "ekmf_retrieve_key ?e (Some config_ok) None (Some ''key-1'') 0 0 False
       (Some ''kid'') (Some 64) True (Some EKMF_EXT_LIB_CCA) = Some ?r"
    using sample_ok by (simp add: retrieve_sample_def)
  have gen: "cca_generate_ecc_key_pair ?e DEFAULT_SESSION_EC_KEY_CURVE = (0, [17, 34, 51])"
    and st: "stack_req_sess_ec_key ?e = [255, 255, 255, 255]"
    by (simp_all add: env_with_response_def env_ok_def)
  have imp: "cca_ec_dh_derive_importer ?e k1 k2 p = (0, [170, 187])"
    and st2: "stack_transport_key ?e = [255, 255, 255]" for k1 k2 p
    by (simp_all add: env_with_response_def env_ok_def)
  from sensitive_buffers_left_as_written [of ?e "Some config_ok" None "Some ''key-1''" 0 0 False
      "Some ''kid''" "Some 64" True "Some EKMF_EXT_LIB_CCA" EKMF_EXT_LIB_CCA "[17, 34, 51]"
      "[5, 6]" "[9, 8]" "JObject [(''kty'', JString ''EC'')]" "JObject [(''kty'', JString ''oct'')]" 64]
    run sample_import
  have "rr_req_sess_ec_key ?r = buf_write [255, 255, 255, 255] [17, 34, 51]"
    and "[170, 187, 255] = buf_write [255, 255, 255] [170, 187]"
    by (simp_all add: gen st imp st2)
  then show ?thesis
    by (simp add: sample_ok sample_import)
qed

theorem buffers_not_zeroed_counterexample:
  "map_option rr_rc (retrieve_sample cr_ok) = Some 0 \<and>
   map_option rr_req_sess_ec_key (retrieve_sample cr_ok) = Some [17, 34, 51, 255] \<and>
   map_option rr_rc (retrieve_sample cr_forbidden) = Some (- EPERM) \<and>
   map_option rr_req_sess_ec_key (retrieve_sample cr_forbidden) = Some [17, 34, 51, 255] \<and>
   [17, 34, 51, 255] \<noteq> [0, 0, 0, 0 :: byte] \<and>
   fst (ekmf_import_key (env_with_response cr_ok) EKMF_EXT_LIB_CCA [17, 34, 51] [5, 6] [9, 8]
     (JObject [(''kty'', JString ''EC'')]) (JObject [(''kty'', JString ''oct'')]) 64) = 0 \<and>
   snd (snd (snd (ekmf_import_key (env_with_response cr_ok) EKMF_EXT_LIB_CCA [17, 34, 51] [5, 6] [9, 8]
     (JObject [(''kty'', JString ''EC'')]) (JObject [(''kty'', JString ''oct'')]) 64))) =
     [170, 187, 255] \<and>
   [170, 187, 255] \<noteq> [0, 0, 0 :: byte]"
  by (simp add: sample_ok sample_forbidden sample_import)

section \<open>The request of the retrieval\<close>







end
